theory Spec2Isabelle
  imports Complex_Main
begin

section \<open>Python values as the upstream client hands them over\<close>

text \<open>
  The upstream client returns \<^verbatim>\<open>response.json()\<close>: a tree of \<^verbatim>\<open>None\<close>, booleans,
  integers, strings, lists and dictionaries. A dictionary keeps its keys in insertion
  order, so it is an association list; Python never holds a key twice, which
  \<open>wf_json\<close> records. Numbers with a fractional part are not part of this model; the
  floats the code computes itself (\<^verbatim>\<open>float(x) / 100\<close>) are exact rationals here, so
  rounding is not modelled. Strings are read as ASCII.
\<close>

datatype json =
    JNull
  | JBool bool
  | JInt int
  | JStr string
  | JList "json list"
  | JDict "(string \<times> json) list"

type_synonym obj = "(string \<times> json) list"

fun wf_json :: "json \<Rightarrow> bool" where
  "wf_json (JList xs) = (\<forall>x \<in> set xs. wf_json x)"
| "wf_json (JDict kvs) = (distinct (map fst kvs) \<and> (\<forall>v \<in> snd ` set kvs. wf_json v))"
| "wf_json _ = True"

text \<open>The exceptions the modelled code can raise; the first block is Python's own,
  \<open>ValidationError\<close> is pydantic's, the last block is \<^verbatim>\<open>src/core/exceptions.py\<close>
  (\<open>InvalidInputError message hint\<close>).\<close>

datatype py_exn =
    TypeError
  | ValueError string
  | AttributeError
  | KeyError
  | IndexError
  | OverflowError
  | ValidationError
  | InvalidInputError string "string option"
  | UpstreamApiError string
  | LocationResolutionError string

text \<open>What one iteration of a normalisation loop does with its record.\<close>

datatype 'a step = Skipped | Kept 'a | Raised py_exn

subsection \<open>Truthiness, \<^verbatim>\<open>or\<close>, \<^verbatim>\<open>dict.get\<close>, \<^verbatim>\<open>in\<close>\<close>

fun truthy :: "json \<Rightarrow> bool" where
  "truthy JNull = False"
| "truthy (JBool b) = b"
| "truthy (JInt n) = (n \<noteq> 0)"
| "truthy (JStr s) = (s \<noteq> [])"
| "truthy (JList xs) = (xs \<noteq> [])"
| "truthy (JDict kvs) = (kvs \<noteq> [])"

definition py_or :: "json \<Rightarrow> json \<Rightarrow> json" where
  "py_or a b = (if truthy a then a else b)"

definition get_default :: "obj \<Rightarrow> string \<Rightarrow> json \<Rightarrow> json" where
  "get_default d k dflt = (case map_of d k of None \<Rightarrow> dflt | Some v \<Rightarrow> v)"

definition get :: "obj \<Rightarrow> string \<Rightarrow> json" where
  "get d k = get_default d k JNull"

definition has_key :: "obj \<Rightarrow> string \<Rightarrow> bool" where
  "has_key d k = (map_of d k \<noteq> None)"

fun is_substring :: "string \<Rightarrow> string \<Rightarrow> bool" where
  "is_substring p [] = (p = [])"
| "is_substring p (c # cs) = (take (length p) (c # cs) = p \<or> is_substring p cs)"

text \<open>\<^verbatim>\<open>key in x\<close> for a string key: a dictionary looks among its keys, a string looks for
  a substring, a list compares its elements, anything else is not iterable.\<close>

fun py_contains :: "string \<Rightarrow> json \<Rightarrow> py_exn + bool" where
  "py_contains k (JDict kvs) = Inr (has_key kvs k)"
| "py_contains k (JStr s) = Inr (is_substring k s)"
| "py_contains k (JList xs) = Inr (JStr k \<in> set xs)"
| "py_contains k _ = Inl TypeError"

subsection \<open>\<^verbatim>\<open>str.strip\<close> and \<^verbatim>\<open>int\<close>\<close>

definition is_space :: "char \<Rightarrow> bool" where
  "is_space c = (let n = (of_char c :: nat) in n = 32 \<or> (9 \<le> n \<and> n \<le> 13) \<or> (28 \<le> n \<and> n \<le> 31))"

definition strip :: "string \<Rightarrow> string" where
  "strip s = dropWhile is_space (rev (dropWhile is_space (rev s)))"

definition is_digit :: "char \<Rightarrow> bool" where
  "is_digit c = (48 \<le> (of_char c :: nat) \<and> (of_char c :: nat) \<le> 57)"

definition digit_val :: "char \<Rightarrow> nat" where
  "digit_val c = (of_char c :: nat) - 48"

text \<open>A run of decimal digits in which single underscores may separate digits.\<close>

fun digits_acc :: "nat \<Rightarrow> string \<Rightarrow> nat option" where
  "digits_acc a [] = Some a"
| "digits_acc a [c] = (if is_digit c then Some (10 * a + digit_val c) else None)"
| "digits_acc a (c # d # cs) =
     (if is_digit c then digits_acc (10 * a + digit_val c) (d # cs)
      else if c = CHR ''_'' \<and> is_digit d then digits_acc a (d # cs)
      else None)"

definition parse_digits :: "string \<Rightarrow> nat option" where
  "parse_digits s = (case s of [] \<Rightarrow> None | c # _ \<Rightarrow> if is_digit c then digits_acc 0 s else None)"

definition int_of_string :: "string \<Rightarrow> int option" where
  "int_of_string s =
     (case strip s of
        [] \<Rightarrow> None
      | c # r \<Rightarrow>
          if c = CHR ''-'' then map_option (\<lambda>n. - int n) (parse_digits r)
          else if c = CHR ''+'' then map_option int (parse_digits r)
          else map_option int (parse_digits (c # r)))"

text \<open>\<^verbatim>\<open>int(x)\<close>: an integer is itself, a boolean is 0 or 1, a string is parsed
  (\<^verbatim>\<open>ValueError\<close> when it is no decimal literal), anything else is a \<^verbatim>\<open>TypeError\<close>.
  The limit that recent Python versions put on the number of digits of such a string
  (a \<^verbatim>\<open>ValueError\<close> as well) is not modelled.\<close>

fun py_int :: "json \<Rightarrow> py_exn + int" where
  "py_int (JInt n) = Inr n"
| "py_int (JBool b) = Inr (if b then 1 else 0)"
| "py_int (JStr s) = (case int_of_string s of
        None \<Rightarrow> Inl (ValueError ''invalid literal for int() with base 10'')
      | Some n \<Rightarrow> Inr n)"
| "py_int _ = Inl TypeError"

section \<open>\<^verbatim>\<open>schemas/models.py\<close>: Position\<close>

record position =
  p_id :: int
  p_name :: string
  p_type :: string
  p_country_code :: "string option"

text \<open>The pydantic constructor: \<^verbatim>\<open>name\<close> and \<^verbatim>\<open>type\<close> are \<^verbatim>\<open>str\<close> fields,
  \<^verbatim>\<open>countryCode\<close> is \<^verbatim>\<open>Optional[str]\<close>; pydantic 2 (the file imports \<^verbatim>\<open>ConfigDict\<close>)
  does not turn a number into a string, so any other value is a validation error.\<close>

definition Position :: "int \<Rightarrow> json \<Rightarrow> json \<Rightarrow> json \<Rightarrow> py_exn + position" where
  "Position i n t c =
     (case n of
        JStr n' \<Rightarrow>
          (case t of
             JStr t' \<Rightarrow>
               (case c of
                  JNull \<Rightarrow> Inr \<lparr>p_id = i, p_name = n', p_type = t', p_country_code = None\<rparr>
                | JStr c' \<Rightarrow> Inr \<lparr>p_id = i, p_name = n', p_type = t', p_country_code = Some c'\<rparr>
                | _ \<Rightarrow> Inl ValidationError)
           | _ \<Rightarrow> Inl ValidationError)
      | _ \<Rightarrow> Inl ValidationError)"

section \<open>\<^verbatim>\<open>utils/normalizer.py\<close>: normalize_positions\<close>

text \<open>The body of the \<^verbatim>\<open>for\<close> loop, lines 21 to 68, for one record.\<close>

definition normalize_position :: "json \<Rightarrow> position step" where
  "normalize_position pos =
     (if \<not> truthy pos then Skipped
      else case py_contains ''positionId'' pos of
        Inl e \<Rightarrow> Raised e
      | Inr False \<Rightarrow> Skipped
      | Inr True \<Rightarrow>
          (case pos of
             JDict d \<Rightarrow>
               (let name = py_or (get d ''displayName'') (py_or (get d ''defaultName'') (get d ''name''))
                in if \<not> truthy name then Skipped
                   else case py_int (get d ''positionId'') of
                     Inl e \<Rightarrow> Skipped
                   | Inr position_id \<Rightarrow>
                       (case Position position_id name
                               (get_default d ''type'' (JStr ''unknown''))
                               (get d ''countryCode'') of
                          Inl e \<Rightarrow> Raised e
                        | Inr p \<Rightarrow> Kept p))
           | _ \<Rightarrow> Raised AttributeError))"

text \<open>The loop with its two accumulators, \<^verbatim>\<open>positions\<close> and \<^verbatim>\<open>skipped_count\<close>.\<close>

fun normalize_positions_loop ::
  "json list \<Rightarrow> position list \<Rightarrow> nat \<Rightarrow> py_exn + (position list \<times> nat)" where
  "normalize_positions_loop [] positions skipped_count = Inr (positions, skipped_count)"
| "normalize_positions_loop (pos # rest) positions skipped_count =
     (case normalize_position pos of
        Skipped \<Rightarrow> normalize_positions_loop rest positions (skipped_count + 1)
      | Kept p \<Rightarrow> normalize_positions_loop rest (positions @ [p]) skipped_count
      | Raised e \<Rightarrow> Inl e)"

text \<open>The function returns the positions; the count of skipped records only reaches
  the log line, so \<open>normalize_positions_log\<close> keeps both.\<close>

definition normalize_positions_log :: "json list \<Rightarrow> py_exn + (position list \<times> nat)" where
  "normalize_positions_log raw_positions =
     (if raw_positions = [] then Inr ([], 0)
      else normalize_positions_loop raw_positions [] 0)"

definition normalize_positions :: "json list \<Rightarrow> py_exn + position list" where
  "normalize_positions raw_positions = map_sum id fst (normalize_positions_log raw_positions)"


section \<open>More of Python: iteration, \<^verbatim>\<open>str\<close>, \<^verbatim>\<open>float\<close>, comparison\<close>

text \<open>Iterating a value: a list gives its elements, a string its characters, a
  dictionary its keys; \<^verbatim>\<open>None\<close>, booleans and integers are not iterable.\<close>

fun py_iter :: "json \<Rightarrow> py_exn + json list" where
  "py_iter (JList xs) = Inr xs"
| "py_iter (JStr s) = Inr (map (\<lambda>c. JStr [c]) s)"
| "py_iter (JDict kvs) = Inr (map (\<lambda>kv. JStr (fst kv)) kvs)"
| "py_iter _ = Inl TypeError"

subsection \<open>\<^verbatim>\<open>str\<close> and \<^verbatim>\<open>repr\<close>\<close>

fun string_of_nat :: "nat \<Rightarrow> string" where
  "string_of_nat n =
     (if n < 10 then [char_of (48 + n)]
      else string_of_nat (n div 10) @ [char_of (48 + n mod 10)])"

declare string_of_nat.simps [simp del]

definition string_of_int :: "int \<Rightarrow> string" where
  "string_of_int i = (if i < 0 then CHR ''-'' # string_of_nat (nat (- i)) else string_of_nat (nat i))"

definition hex_digit :: "nat \<Rightarrow> char" where
  "hex_digit n = (if n < 10 then char_of (48 + n) else char_of (87 + n))"

text \<open>One character inside \<^verbatim>\<open>repr\<close> of a string whose quote is \<open>q\<close>.\<close>

definition repr_char :: "char \<Rightarrow> char \<Rightarrow> string" where
  "repr_char q c =
     (let n = (of_char c :: nat) in
      if c = q \<or> n = 92 then [CHR 0x5C, c]
      else if n = 10 then [CHR 0x5C, CHR ''n'']
      else if n = 13 then [CHR 0x5C, CHR ''r'']
      else if n = 9 then [CHR 0x5C, CHR ''t'']
      else if n < 32 \<or> n = 127 then [CHR 0x5C, CHR ''x'', hex_digit (n div 16), hex_digit (n mod 16)]
      else [c])"

definition repr_string :: "string \<Rightarrow> string" where
  "repr_string s =
     (let q = (if CHR 0x27 \<in> set s \<and> CHR 0x22 \<notin> set s then CHR 0x22 else CHR 0x27)
      in q # concat (map (repr_char q) s) @ [q])"

fun join :: "string \<Rightarrow> string list \<Rightarrow> string" where
  "join sep [] = []"
| "join sep [x] = x"
| "join sep (x # y # ys) = x @ sep @ join sep (y # ys)"

fun py_repr :: "json \<Rightarrow> string" where
  "py_repr JNull = ''None''"
| "py_repr (JBool b) = (if b then ''True'' else ''False'')"
| "py_repr (JInt n) = string_of_int n"
| "py_repr (JStr s) = repr_string s"
| "py_repr (JList xs) = ''['' @ join '', '' (map py_repr xs) @ '']''"
| "py_repr (JDict kvs) =
     ''{'' @ join '', '' (map (\<lambda>kv. repr_string (fst kv) @ '': '' @ py_repr (snd kv)) kvs) @ ''}''"

text \<open>\<^verbatim>\<open>str(x)\<close>: a string is itself, anything else prints as its \<^verbatim>\<open>repr\<close>.\<close>

definition py_str :: "json \<Rightarrow> string" where
  "py_str v = (case v of JStr s \<Rightarrow> s | _ \<Rightarrow> py_repr v)"

subsection \<open>\<^verbatim>\<open>float\<close>\<close>

text \<open>A float is an exact rational, an infinity or not-a-number (the last two only
  arise from the strings \<^verbatim>\<open>"inf"\<close> and \<^verbatim>\<open>"nan"\<close>).\<close>

datatype float_val = Finite rat | PosInf | NegInf | NaN

definition float_div :: "float_val \<Rightarrow> rat \<Rightarrow> float_val" where
  "float_div x d = (case x of Finite r \<Rightarrow> Finite (r / d) | _ \<Rightarrow> x)"

fun float_lt :: "float_val \<Rightarrow> float_val \<Rightarrow> bool" where
  "float_lt (Finite a) (Finite b) = (a < b)"
| "float_lt NaN _ = False"
| "float_lt _ NaN = False"
| "float_lt NegInf b = (b \<noteq> NegInf)"
| "float_lt a PosInf = (a \<noteq> PosInf)"
| "float_lt _ _ = False"

definition lower :: "char \<Rightarrow> char" where
  "lower c = (let n = (of_char c :: nat) in if 65 \<le> n \<and> n \<le> 90 then char_of (n + 32) else c)"

definition is_digitish :: "char \<Rightarrow> bool" where
  "is_digitish c = (is_digit c \<or> c = CHR ''_'')"

text \<open>An optional sign: whether it is a minus, and the rest.\<close>

definition take_sign :: "string \<Rightarrow> bool \<times> string" where
  "take_sign s =
     (case s of
        [] \<Rightarrow> (False, [])
      | c # r \<Rightarrow> if c = CHR ''-'' then (True, r) else if c = CHR ''+'' then (False, r) else (False, s))"

text \<open>The digits of a mantissa part, which may be absent.\<close>

definition opt_digits :: "string \<Rightarrow> nat option" where
  "opt_digits s = (if s = [] then Some 0 else parse_digits s)"

text \<open>A decimal literal without sign: \<^verbatim>\<open>digits[.[digits]][e[sign]digits]\<close> or
  \<^verbatim>\<open>.digits[e[sign]digits]\<close>.\<close>

definition decimal_of_string :: "string \<Rightarrow> rat option" where
  "decimal_of_string u =
     (let ip = takeWhile is_digitish u;
          r1 = dropWhile is_digitish u;
          dot = (r1 \<noteq> [] \<and> hd r1 = CHR ''.'');
          fp = (if dot then takeWhile is_digitish (tl r1) else []);
          r2 = (if dot then dropWhile is_digitish (tl r1) else r1);
          ex = (if r2 \<noteq> [] \<and> lower (hd r2) = CHR ''e''
                then (case take_sign (tl r2) of (neg, ds) \<Rightarrow>
                        map_option (\<lambda>n. if neg then - int n else int n) (parse_digits ds))
                else if r2 = [] then Some 0 else None)
      in if ip = [] \<and> fp = [] then None
         else case (opt_digits ip, opt_digits fp, ex) of
           (Some i, Some f, Some e) \<Rightarrow>
             Some ((of_nat i + of_nat f / 10 ^ length (filter is_digit fp))
                   * (if e < 0 then 1 / 10 ^ nat (- e) else 10 ^ nat e))
         | _ \<Rightarrow> None)"

definition float_of_string :: "string \<Rightarrow> float_val option" where
  "float_of_string s =
     (case take_sign (strip s) of (neg, u) \<Rightarrow>
        if map lower u = ''inf'' \<or> map lower u = ''infinity'' then Some (if neg then NegInf else PosInf)
        else if map lower u = ''nan'' then Some NaN
        else map_option (\<lambda>r. Finite (if neg then - r else r)) (decimal_of_string u))"

text \<open>\<^verbatim>\<open>float(x)\<close>. An integer too large for a double is an \<^verbatim>\<open>OverflowError\<close>; a
  string never is: Python reads a literal beyond the range as an infinity, where this
  model keeps the rational.\<close>

fun py_float :: "json \<Rightarrow> py_exn + float_val" where
  "py_float (JInt n) =
     (if \<bar>n\<bar> < 2 ^ 1024 - 2 ^ 970 then Inr (Finite (of_int n)) else Inl OverflowError)"
| "py_float (JBool b) = Inr (Finite (if b then 1 else 0))"
| "py_float (JStr s) =
     (case float_of_string s of
        None \<Rightarrow> Inl (ValueError ''could not convert string to float'')
      | Some x \<Rightarrow> Inr x)"
| "py_float _ = Inl TypeError"

subsection \<open>\<^verbatim>\<open><\<close> and \<^verbatim>\<open>== 0\<close>\<close>

fun string_lt :: "string \<Rightarrow> string \<Rightarrow> bool" where
  "string_lt [] [] = False"
| "string_lt [] (d # ds) = True"
| "string_lt (c # cs) [] = False"
| "string_lt (c # cs) (d # ds) =
     ((of_char c :: nat) < of_char d \<or> (c = d \<and> string_lt cs ds))"

definition num_of :: "json \<Rightarrow> int option" where
  "num_of v = (case v of JInt n \<Rightarrow> Some n | JBool b \<Rightarrow> Some (if b then 1 else 0) | _ \<Rightarrow> None)"

text \<open>\<^verbatim>\<open>a < b\<close>: numbers compare with numbers and strings with strings; every other
  pairing is a \<^verbatim>\<open>TypeError\<close>. (Python would compare two lists element by element;
  each caller below fails on a list value in any case: \<^verbatim>\<open>float\<close> of a list is a
  \<^verbatim>\<open>TypeError\<close>, and a list is no \<^verbatim>\<open>str\<close> for pydantic.)\<close>

definition py_lt :: "json \<Rightarrow> json \<Rightarrow> py_exn + bool" where
  "py_lt a b =
     (case (num_of a, num_of b) of
        (Some x, Some y) \<Rightarrow> Inr (x < y)
      | _ \<Rightarrow> (case (a, b) of (JStr s, JStr t) \<Rightarrow> Inr (string_lt s t) | _ \<Rightarrow> Inl TypeError))"

definition py_eq_zero :: "json \<Rightarrow> bool" where
  "py_eq_zero v = (num_of v = Some 0)"

section \<open>\<^verbatim>\<open>schemas/models.py\<close>: parameter records\<close>

record autocomplete_params =
  ac_term :: string
  ac_locale :: string
  ac_limit :: int

record resolve_positions_params =
  rp_from_term :: string
  rp_to_term :: string
  rp_locale :: string
  rp_limit_each :: int

section \<open>\<^verbatim>\<open>utils/validator.py\<close>\<close>

definition validate_autocomplete_params :: "autocomplete_params \<Rightarrow> py_exn + unit" where
  "validate_autocomplete_params params =
     (if strip (ac_term params) = [] then Inl (ValueError ''Autocomplete term cannot be empty.'')
      else if length (ac_term params) < 2
        then Inl (ValueError ''Autocomplete term must contain at least 2 characters.'')
      else Inr ())"

definition validate_resolve_params :: "resolve_positions_params \<Rightarrow> py_exn + unit" where
  "validate_resolve_params params =
     (if strip (rp_from_term params) = [] \<or> strip (rp_to_term params) = []
      then Inl (ValueError ''Both 'from_term' and 'to_term' must be provided.'')
      else Inr ())"






subsection \<open>The parser on calendar dates\<close>









section \<open>\<^verbatim>\<open>utils/normalizer.py\<close>: shape_day_results\<close>

text \<open>Sequencing of steps that may raise: the first exception ends the computation.\<close>

definition bind_exn :: "py_exn + 'a \<Rightarrow> ('a \<Rightarrow> py_exn + 'b) \<Rightarrow> py_exn + 'b" where
  "bind_exn m f = (case m of Inl e \<Rightarrow> Inl e | Inr x \<Rightarrow> f x)"

text \<open>A dictionary built by a comprehension: a later entry with the same key replaces
  the earlier one, so a lookup finds the last.\<close>

definition dict_of :: "(string \<times> 'a) list \<Rightarrow> string \<Rightarrow> 'a option" where
  "dict_of kvs = map_of (rev kvs)"

text \<open>The elements of a list as dictionaries; \<^verbatim>\<open>.get\<close> on anything else is an
  \<^verbatim>\<open>AttributeError\<close>.\<close>

fun as_dicts :: "json list \<Rightarrow> py_exn + obj list" where
  "as_dicts [] = Inr []"
| "as_dicts (JDict d # rest) = bind_exn (as_dicts rest) (\<lambda>ds. Inr (d # ds))"
| "as_dicts (_ # rest) = Inl AttributeError"

text \<open>pydantic's \<^verbatim>\<open>str\<close> and \<^verbatim>\<open>Optional[str]\<close> fields.\<close>

definition as_str :: "json \<Rightarrow> py_exn + string" where
  "as_str v = (case v of JStr s \<Rightarrow> Inr s | _ \<Rightarrow> Inl ValidationError)"

definition as_opt_str :: "json \<Rightarrow> py_exn + string option" where
  "as_opt_str v = (case v of JNull \<Rightarrow> Inr None | JStr s \<Rightarrow> Inr (Some s) | _ \<Rightarrow> Inl ValidationError)"

record time_info =
  ti_datetime :: string
  ti_tz :: "string option"

definition TimeInfo :: "json \<Rightarrow> json \<Rightarrow> py_exn + time_info" where
  "TimeInfo dt tz =
     bind_exn (as_str dt) (\<lambda>d.
     bind_exn (as_opt_str tz) (\<lambda>z.
     Inr \<lparr>ti_datetime = d, ti_tz = z\<rparr>))"

record itinerary =
  it_from_term :: string
  it_to_term :: string
  it_mode :: string
  it_stable_id :: string
  it_price_from :: float_val
  it_currency :: string
  it_duration :: string
  it_departure :: time_info
  it_arrival :: time_info
  it_carrier :: "string option"

definition Itinerary ::
  "json \<Rightarrow> json \<Rightarrow> json \<Rightarrow> string \<Rightarrow> float_val \<Rightarrow> json \<Rightarrow> string \<Rightarrow> time_info \<Rightarrow> time_info
   \<Rightarrow> json \<Rightarrow> py_exn + itinerary" where
  "Itinerary from_term to_term mode stableId priceFrom currency duration departure arrival carrier =
     bind_exn (as_str from_term) (\<lambda>ft.
     bind_exn (as_str to_term) (\<lambda>tt.
     bind_exn (as_str mode) (\<lambda>m.
     bind_exn (as_str currency) (\<lambda>cur.
     bind_exn (as_opt_str carrier) (\<lambda>car.
     Inr \<lparr>it_from_term = ft, it_to_term = tt, it_mode = m, it_stable_id = stableId,
          it_price_from = priceFrom, it_currency = cur, it_duration = duration,
          it_departure = departure, it_arrival = arrival, it_carrier = car\<rparr>)))))"

text \<open>Line 130: \<^verbatim>\<open>[str(sid) for sid in ... if sid in segments_map]\<close>. The keys of
  \<^verbatim>\<open>segments_map\<close> are strings, so only a string can be among them; a list or a
  dictionary cannot be hashed, which is a \<^verbatim>\<open>TypeError\<close>.\<close>

fun segment_ids_of :: "(string \<Rightarrow> obj option) \<Rightarrow> json list \<Rightarrow> py_exn + string list" where
  "segment_ids_of segments_map [] = Inr []"
| "segment_ids_of segments_map (sid # rest) =
     (case sid of
        JList _ \<Rightarrow> Inl TypeError
      | JDict _ \<Rightarrow> Inl TypeError
      | JStr k \<Rightarrow>
          bind_exn (segment_ids_of segments_map rest) (\<lambda>ids.
            Inr (if segments_map k \<noteq> None then k # ids else ids))
      | _ \<Rightarrow> segment_ids_of segments_map rest)"

text \<open>Line 131: \<^verbatim>\<open>[segments_map[sid] for sid in segment_ids]\<close>; every id was found in
  the map on the line before.\<close>

definition segments_for :: "(string \<Rightarrow> obj option) \<Rightarrow> string list \<Rightarrow> obj list" where
  "segments_for segments_map ids =
     concat (map (\<lambda>k. case segments_map k of None \<Rightarrow> [] | Some s \<Rightarrow> [s]) ids)"

text \<open>Line 132: the stable sort by \<^verbatim>\<open>s.get("departureDateTime") or ""\<close>. An element goes
  in front of the first one it is smaller than; a comparison that raises ends the sort.\<close>

definition departure_key :: "obj \<Rightarrow> json" where
  "departure_key s = py_or (get s ''departureDateTime'') (JStr [])"

fun insert_segment :: "obj \<Rightarrow> obj list \<Rightarrow> py_exn + obj list" where
  "insert_segment x [] = Inr [x]"
| "insert_segment x (y # ys) =
     bind_exn (py_lt (departure_key x) (departure_key y)) (\<lambda>b.
       if b then Inr (x # y # ys)
       else bind_exn (insert_segment x ys) (\<lambda>zs. Inr (y # zs)))"

fun sort_segments :: "obj list \<Rightarrow> obj list \<Rightarrow> py_exn + obj list" where
  "sort_segments done [] = Inr done"
| "sort_segments done (x # xs) = bind_exn (insert_segment x done) (\<lambda>d. sort_segments d xs)"

text \<open>The body of the \<^verbatim>\<open>try\<close>, lines 130 to 161, for a schedule that is a dictionary.\<close>

definition shape_schedule ::
  "obj \<Rightarrow> (string \<Rightarrow> json option) \<Rightarrow> (string \<Rightarrow> json option) \<Rightarrow> (string \<Rightarrow> obj option)
   \<Rightarrow> obj \<Rightarrow> py_exn + itinerary" where
  "shape_schedule raw_data carriers_map positions_map segments_map sched =
     bind_exn (py_iter (py_or (get sched ''segmentIDs'') (JList []))) (\<lambda>sids.
     bind_exn (segment_ids_of segments_map sids) (\<lambda>segment_ids.
     bind_exn (sort_segments [] (segments_for segments_map segment_ids)) (\<lambda>segments_data.
     let first_seg = (case segments_data of [] \<Rightarrow> [] | s # _ \<Rightarrow> s);
         dep_info = py_or (get first_seg ''departureDateTime'') (get sched ''departureAt'');
         arr_info = py_or (get first_seg ''arrivalDateTime'') (get sched ''arrivalAt'');
         dep_tz = py_or (get first_seg ''departureTimeZone'') (JStr ''UTC'');
         arr_tz = py_or (get first_seg ''arrivalTimeZone'') (JStr ''UTC'')
     in
     bind_exn (TimeInfo dep_info dep_tz) (\<lambda>dep.
     bind_exn (TimeInfo arr_info arr_tz) (\<lambda>arr.
     let from_pos_id = py_str (py_or (get first_seg ''departurePositionId'')
                                 (py_or (get raw_data ''fromPosId'') (JStr [])));
         to_pos_id = py_str (py_or (get first_seg ''arrivalPositionId'')
                               (py_or (get raw_data ''toPosId'') (JStr [])))
     in
     bind_exn (py_float (get_default sched ''priceCents'' (JInt 0))) (\<lambda>price.
     Itinerary
       (case positions_map from_pos_id of None \<Rightarrow> JStr ''Unknown'' | Some n \<Rightarrow> n)
       (case positions_map to_pos_id of None \<Rightarrow> JStr ''Unknown'' | Some n \<Rightarrow> n)
       (py_or (get first_seg ''travelMode'') (py_or (get sched ''travelMode'') (JStr ''unknown'')))
       (py_str (py_or (get sched ''id'') (py_or (get first_seg ''id'') (JStr []))))
       (float_div price 100)
       (py_or (get sched ''currency'') (JStr ''EUR''))
       (py_str (py_or (get first_seg ''durationMinutes'') (py_or (get sched ''duration'') (JInt 0))))
       dep
       arr
       (if truthy (get first_seg ''carrierId'')
        then (case carriers_map (py_str (get first_seg ''carrierId'')) of
                None \<Rightarrow> JNull | Some c \<Rightarrow> c)
        else JNull)))))))"

text \<open>The loop over all schedules, lines 123 to 172: a schedule that is no dictionary,
  or whose \<^verbatim>\<open>try\<close> body raises before line 161, adds one to \<^verbatim>\<open>errors_count\<close> and is
  left out. A schedule that reaches line 161 is appended to the result; the log line
  that follows, still inside the \<^verbatim>\<open>try\<close>, reads \<^verbatim>\<open>itinerary.priceFrom\<close>, which is the
  alias of the field \<^verbatim>\<open>price_from\<close> and no attribute of the model: an
  \<^verbatim>\<open>AttributeError\<close>, caught by the same \<^verbatim>\<open>except\<close>, so \<^verbatim>\<open>errors_count\<close> grows for this
  schedule too while the itinerary stays in the result.\<close>

fun shape_loop ::
  "obj \<Rightarrow> (string \<Rightarrow> json option) \<Rightarrow> (string \<Rightarrow> json option) \<Rightarrow> (string \<Rightarrow> obj option)
   \<Rightarrow> json list \<Rightarrow> itinerary list \<Rightarrow> nat \<Rightarrow> itinerary list \<times> nat" where
  "shape_loop raw_data cm pm sm [] shaped_results errors_count = (shaped_results, errors_count)"
| "shape_loop raw_data cm pm sm (sched # rest) shaped_results errors_count =
     (case sched of
        JDict sd \<Rightarrow>
          (case shape_schedule raw_data cm pm sm sd of
             Inl e \<Rightarrow> shape_loop raw_data cm pm sm rest shaped_results (errors_count + 1)
           | Inr itinerary \<Rightarrow>
               shape_loop raw_data cm pm sm rest (shaped_results @ [itinerary]) (errors_count + 1))
      | _ \<Rightarrow> shape_loop raw_data cm pm sm rest shaped_results (errors_count + 1))"

text \<open>Lines 108 to 112, the three lookup tables.\<close>

definition carrier_entry :: "obj \<Rightarrow> string \<times> json" where
  "carrier_entry c =
     (py_str (get c ''id''),
      py_or (get c ''name'') (py_or (get c ''code'') (JStr (py_str (get c ''id'')))))"

definition position_entry :: "obj \<Rightarrow> string \<times> json" where
  "position_entry p = (py_str (get p ''id''), py_or (get p ''name'') (JStr (py_str (get p ''id''))))"

definition segment_entry :: "obj \<Rightarrow> string \<times> obj" where
  "segment_entry s = (py_str (get s ''id''), s)"

definition table_of :: "obj \<Rightarrow> string \<Rightarrow> py_exn + obj list" where
  "table_of raw_data key =
     bind_exn (py_iter (get_default raw_data key (JList []))) as_dicts"

text \<open>Lines 114 to 118: the schedules of one key.\<close>

definition schedules_of :: "obj \<Rightarrow> string \<Rightarrow> py_exn + json list" where
  "schedules_of raw_data key = py_iter (py_or (get_default raw_data key (JList [])) (JList []))"

text \<open>The function returns the itineraries; \<^verbatim>\<open>errors_count\<close> only reaches the log, so
  \<open>shape_day_results_log\<close> keeps both.\<close>

definition shape_day_results_log :: "json \<Rightarrow> py_exn + (itinerary list \<times> nat)" where
  "shape_day_results_log raw =
     (case raw of
        JDict raw_data \<Rightarrow>
          bind_exn (table_of raw_data ''carriers'') (\<lambda>carriers.
          bind_exn (table_of raw_data ''positions'') (\<lambda>positions.
          bind_exn (table_of raw_data ''segments'') (\<lambda>segments.
          bind_exn (schedules_of raw_data ''combinedSchedules'') (\<lambda>combined.
          bind_exn (schedules_of raw_data ''outboundSchedules'') (\<lambda>outbound.
          bind_exn (schedules_of raw_data ''inboundSchedules'') (\<lambda>inbound.
          Inr (shape_loop raw_data
                 (dict_of (map carrier_entry carriers))
                 (dict_of (map position_entry positions))
                 (dict_of (map segment_entry segments))
                 (combined @ outbound @ inbound) [] 0)))))))
      | _ \<Rightarrow> Inl AttributeError)"

definition shape_day_results :: "json \<Rightarrow> py_exn + itinerary list" where
  "shape_day_results raw = bind_exn (shape_day_results_log raw) (\<lambda>r. Inr (fst r))"

text \<open>What one schedule contributes to the result: its itinerary, or nothing when it is
  no dictionary or its \<^verbatim>\<open>try\<close> body raises.\<close>

definition shaped_of ::
  "obj \<Rightarrow> (string \<Rightarrow> json option) \<Rightarrow> (string \<Rightarrow> json option) \<Rightarrow> (string \<Rightarrow> obj option)
   \<Rightarrow> json \<Rightarrow> itinerary list" where
  "shaped_of rd cm pm sm sched =
     (case sched of
        JDict sd \<Rightarrow> (case shape_schedule rd cm pm sm sd of Inl e \<Rightarrow> [] | Inr it \<Rightarrow> [it])
      | _ \<Rightarrow> [])"

text \<open>A day-results payload whose only schedule names a segment that is not listed.\<close>

definition sample_schedule :: obj where
  "sample_schedule =
     [(''id'', JStr ''s1''), (''segmentIDs'', JList [JStr ''x'']),
      (''departureAt'', JStr ''2024-06-01T10:00''), (''arrivalAt'', JStr ''2024-06-01T12:00''),
      (''priceCents'', JInt 1000)]"

definition sample_day_payload :: obj where
  "sample_day_payload =
     [(''positions'', JList [JDict [(''id'', JInt 1), (''name'', JStr ''Paris'')]]),
      (''segments'', JList [JDict [(''id'', JStr ''a'')]]),
      (''fromPosId'', JInt 1),
      (''outboundSchedules'', JList [JDict sample_schedule])]"

section \<open>\<^verbatim>\<open>utils/normalizer.py\<close>: normalize_calendar_day_results\<close>

record calendar_day =
  cd_date :: json
  cd_price_cents :: float_val
  cd_currency :: json

record calendar_stats =
  cs_min_price_cents :: "json option"
  cs_max_price_cents :: "json option"
  cs_min_price :: "float_val option"
  cs_max_price :: "float_val option"
  cs_total_days :: nat

text \<open>The result dictionary; the early return for an empty \<^verbatim>\<open>prices\<close> list has no
  \<^verbatim>\<open>stats\<close> entry.\<close>

record calendar_result =
  cr_request_id :: json
  cr_from_pos_id :: json
  cr_to_pos_id :: json
  cr_currency :: json
  cr_calendar :: "calendar_day list"
  cr_stats :: "calendar_stats option"

text \<open>Lines 223 to 226: the running minimum and maximum of the raw \<^verbatim>\<open>priceCents\<close> values.\<close>

definition update_min :: "json \<Rightarrow> json option \<Rightarrow> py_exn + json option" where
  "update_min price_cents mn =
     (case mn of
        None \<Rightarrow> Inr (Some price_cents)
      | Some m \<Rightarrow> bind_exn (py_lt price_cents m) (\<lambda>b. Inr (Some (if b then price_cents else m))))"

definition update_max :: "json \<Rightarrow> json option \<Rightarrow> py_exn + json option" where
  "update_max price_cents mx =
     (case mx of
        None \<Rightarrow> Inr (Some price_cents)
      | Some m \<Rightarrow> bind_exn (py_lt m price_cents) (\<lambda>b. Inr (Some (if b then price_cents else m))))"

text \<open>The loop, lines 214 to 240, with \<^verbatim>\<open>normalized_days\<close>, \<^verbatim>\<open>min_price_cents\<close> and
  \<^verbatim>\<open>max_price_cents\<close> as accumulators. There is no \<^verbatim>\<open>try\<close> here: an exception leaves
  the function.\<close>

fun calendar_loop ::
  "json \<Rightarrow> json list \<Rightarrow> calendar_day list \<Rightarrow> json option \<Rightarrow> json option
   \<Rightarrow> py_exn + (calendar_day list \<times> json option \<times> json option)" where
  "calendar_loop currency [] normalized_days mn mx = Inr (normalized_days, mn, mx)"
| "calendar_loop currency (day # rest) normalized_days mn mx =
     (case day of
        JDict d \<Rightarrow>
          (let date = get d ''date''; price_cents = get d ''priceCents'' in
           if date = JNull \<or> price_cents = JNull
           then calendar_loop currency rest normalized_days mn mx
           else
             bind_exn (update_min price_cents mn) (\<lambda>mn'.
             bind_exn (update_max price_cents mx) (\<lambda>mx'.
             bind_exn (py_float price_cents) (\<lambda>p.
             calendar_loop currency rest
               (normalized_days @ [\<lparr>cd_date = date, cd_price_cents = p, cd_currency = currency\<rparr>])
               mn' mx'))))
      | _ \<Rightarrow> Inl AttributeError)"

text \<open>\<^verbatim>\<open>float(m) / 100 if m else None\<close>, lines 251 and 252.\<close>

definition major_units :: "json option \<Rightarrow> py_exn + float_val option" where
  "major_units m =
     (case m of
        None \<Rightarrow> Inr None
      | Some v \<Rightarrow>
          if truthy v then bind_exn (py_float v) (\<lambda>x. Inr (Some (float_div x 100)))
          else Inr None)"

text \<open>Formatting with \<^verbatim>\<open>:.2f\<close> inside an f-string: \<^verbatim>\<open>None\<close> has no such format, which
  is a \<^verbatim>\<open>TypeError\<close>; the text itself only reaches the log.\<close>

definition format_2f :: "float_val option \<Rightarrow> py_exn + unit" where
  "format_2f x = (case x of None \<Rightarrow> Inl TypeError | Some _ \<Rightarrow> Inr ())"

definition len_of :: "json \<Rightarrow> py_exn + nat" where
  "len_of v =
     (case v of
        JList xs \<Rightarrow> Inr (length xs)
      | JStr s \<Rightarrow> Inr (length s)
      | JDict kvs \<Rightarrow> Inr (length kvs)
      | _ \<Rightarrow> Inl TypeError)"

definition normalize_calendar_day_results :: "json \<Rightarrow> py_exn + (calendar_result \<times> nat)" where
  "normalize_calendar_day_results raw =
     (case raw of
        JDict data \<Rightarrow>
          (let request_id = get data ''requestId'';
               from_pos_id = get data ''fromPosId'';
               to_pos_id = get data ''toPosId'';
               currency = get_default data ''currency'' (JStr ''EUR'');
               price_days = get_default data ''prices'' (JList [])
           in
           if \<not> truthy price_days
           then Inr (\<lparr>cr_request_id = request_id, cr_from_pos_id = from_pos_id,
                       cr_to_pos_id = to_pos_id, cr_currency = currency,
                       cr_calendar = [], cr_stats = None\<rparr>, 0)
           else
             bind_exn (len_of price_days) (\<lambda>n.
             bind_exn (py_iter price_days) (\<lambda>days.
             bind_exn (calendar_loop currency days [] None None) (\<lambda>(normalized_days, mn, mx).
             bind_exn (major_units mn) (\<lambda>min_price.
             bind_exn (major_units mx) (\<lambda>max_price.
             bind_exn (format_2f min_price) (\<lambda>_.
             bind_exn (format_2f max_price) (\<lambda>_.
             Inr (\<lparr>cr_request_id = request_id, cr_from_pos_id = from_pos_id,
                    cr_to_pos_id = to_pos_id, cr_currency = currency,
                    cr_calendar = normalized_days,
                    cr_stats = Some \<lparr>cs_min_price_cents = mn, cs_max_price_cents = mx,
                                      cs_min_price = min_price, cs_max_price = max_price,
                                      cs_total_days = length normalized_days\<rparr>\<rparr>,
                  length normalized_days)))))))))
      | _ \<Rightarrow> Inl AttributeError)"

text \<open>The days that are kept: the dictionaries with a \<^verbatim>\<open>date\<close> and a \<^verbatim>\<open>priceCents\<close>.\<close>

definition kept_days :: "json list \<Rightarrow> obj list" where
  "kept_days days =
     concat (map (\<lambda>day. case day of
                          JDict d \<Rightarrow> if get d ''date'' = JNull \<or> get d ''priceCents'' = JNull
                                     then [] else [d]
                        | _ \<Rightarrow> [])
                 days)"

section \<open>\<^verbatim>\<open>utils/normalizer.py\<close>: normalize_cheapest_summary_results\<close>

record price_entry =
  pe_min_price :: float_val
  pe_price_cents :: json
  pe_currency :: string
  pe_number_of_results :: json
  pe_last_updated_at :: json

record mode_stats =
  ms_count :: int
  ms_total_results :: int
  ms_min_price :: "float_val option"
  ms_max_price :: "float_val option"

record cheapest_stats =
  total_dates :: int
  total_modes :: int
  total_results :: int
  by_mode :: "(string \<times> mode_stats) list"
  min_price_overall :: "float_val option"
  max_price_overall :: "float_val option"
  cheapest_date :: "string option"
  cheapest_mode :: "string option"

text \<open>The early return for an empty \<^verbatim>\<open>data\<close> gives a result without \<^verbatim>\<open>stats\<close> and a
  statistics dictionary with the three totals only; the same record holds it, its other
  fields empty.\<close>

record cheapest_result =
  chr_summary :: "(string \<times> (string \<times> price_entry) list) list"
  chr_currency :: string
  chr_errors :: json
  chr_stats :: "cheapest_stats option"

definition initial_stats :: cheapest_stats where
  "initial_stats =
     \<lparr>total_dates = 0, total_modes = 0, total_results = 0, by_mode = [],
      min_price_overall = None, max_price_overall = None,
      cheapest_date = None, cheapest_mode = None\<rparr>"

text \<open>\<^verbatim>\<open>d[k] = v\<close> on a dictionary in insertion order.\<close>

fun assign :: "string \<Rightarrow> 'a \<Rightarrow> (string \<times> 'a) list \<Rightarrow> (string \<times> 'a) list" where
  "assign k v [] = [(k, v)]"
| "assign k v ((k', v') # rest) = (if k = k' then (k, v) # rest else (k', v') # assign k v rest)"

text \<open>\<^verbatim>\<open>n += x\<close> for an integer \<^verbatim>\<open>n\<close>: only a number can be added.\<close>

definition add_int :: "int \<Rightarrow> json \<Rightarrow> py_exn + int" where
  "add_int n x = (case num_of x of None \<Rightarrow> Inl TypeError | Some k \<Rightarrow> Inr (n + k))"

definition lower_min :: "float_val \<Rightarrow> float_val option \<Rightarrow> bool" where
  "lower_min x m = (case m of None \<Rightarrow> True | Some y \<Rightarrow> float_lt x y)"

definition higher_max :: "float_val \<Rightarrow> float_val option \<Rightarrow> bool" where
  "higher_max x m = (case m of None \<Rightarrow> True | Some y \<Rightarrow> float_lt y x)"

text \<open>Lines 343 to 359: the entry of \<^verbatim>\<open>stats["by_mode"]\<close> for this mode.\<close>

definition update_by_mode ::
  "string \<Rightarrow> int \<Rightarrow> float_val \<Rightarrow> (string \<times> mode_stats) list \<Rightarrow> (string \<times> mode_stats) list" where
  "update_by_mode mode num_results min_price bm =
     (let old = (case map_of bm mode of
                   None \<Rightarrow> \<lparr>ms_count = 0, ms_total_results = 0, ms_min_price = None, ms_max_price = None\<rparr>
                 | Some s \<Rightarrow> s)
      in assign mode
           \<lparr>ms_count = ms_count old + 1,
            ms_total_results = ms_total_results old + num_results,
            ms_min_price = (if lower_min min_price (ms_min_price old) then Some min_price
                            else ms_min_price old),
            ms_max_price = (if higher_max min_price (ms_max_price old) then Some min_price
                            else ms_max_price old)\<rparr>
           bm)"

text \<open>Lines 327 to 334: whether the entry is skipped as having no price or no result.\<close>

definition no_data :: "obj \<Rightarrow> bool" where
  "no_data price_info =
     (py_eq_zero (get_default price_info ''priceCents'' (JInt 0))
      \<or> py_eq_zero (get_default price_info ''numberOfResults'' (JInt 0)))"

text \<open>Lines 336 to 377 for an entry that is kept: the statistics and the entry itself.\<close>

definition keep_entry ::
  "string \<Rightarrow> string \<Rightarrow> string \<Rightarrow> obj \<Rightarrow> cheapest_stats
   \<Rightarrow> py_exn + (cheapest_stats \<times> price_entry)" where
  "keep_entry currency date mode price_info stats =
     (let price_cents = get_default price_info ''priceCents'' (JInt 0);
          num_results = get_default price_info ''numberOfResults'' (JInt 0);
          last_updated = get price_info ''lastUpdatedAt''
      in
      bind_exn (py_float price_cents) (\<lambda>f.
      let min_price = float_div f 100 in
      bind_exn (add_int (total_results stats) num_results) (\<lambda>tr.
      bind_exn (add_int 0 num_results) (\<lambda>nr.
      let lower = lower_min min_price (min_price_overall stats) in
      Inr (stats\<lparr>total_modes := total_modes stats + 1,
                 total_results := tr,
                 by_mode := update_by_mode mode nr min_price (by_mode stats),
                 min_price_overall := (if lower then Some min_price else min_price_overall stats),
                 cheapest_date := (if lower then Some date else cheapest_date stats),
                 cheapest_mode := (if lower then Some mode else cheapest_mode stats),
                 max_price_overall := (if higher_max min_price (max_price_overall stats)
                                       then Some min_price else max_price_overall stats)\<rparr>,
           \<lparr>pe_min_price = min_price, pe_price_cents = price_cents, pe_currency = currency,
            pe_number_of_results = num_results, pe_last_updated_at = last_updated\<rparr>)))))"

text \<open>The inner loop, lines 323 to 382, over the modes of one date.\<close>

fun modes_loop ::
  "string \<Rightarrow> string \<Rightarrow> (string \<times> json) list \<Rightarrow> cheapest_stats \<Rightarrow> (string \<times> price_entry) list
   \<Rightarrow> py_exn + (cheapest_stats \<times> (string \<times> price_entry) list)" where
  "modes_loop currency date [] stats date_prices = Inr (stats, date_prices)"
| "modes_loop currency date ((mode, info) # rest) stats date_prices =
     (case info of
        JDict price_info \<Rightarrow>
          if no_data price_info then modes_loop currency date rest stats date_prices
          else bind_exn (keep_entry currency date mode price_info stats) (\<lambda>(stats', entry).
                 modes_loop currency date rest stats' (assign mode entry date_prices))
      | _ \<Rightarrow> modes_loop currency date rest stats date_prices)"

text \<open>The outer loop, lines 315 to 385, over the dates.\<close>

fun dates_loop ::
  "string \<Rightarrow> (string \<times> json) list \<Rightarrow> cheapest_stats
   \<Rightarrow> (string \<times> (string \<times> price_entry) list) list
   \<Rightarrow> py_exn + (cheapest_stats \<times> (string \<times> (string \<times> price_entry) list) list)" where
  "dates_loop currency [] stats summary_by_date = Inr (stats, summary_by_date)"
| "dates_loop currency ((date, modes) # rest) stats summary_by_date =
     (case modes of
        JDict modes_data \<Rightarrow>
          bind_exn (modes_loop currency date modes_data
                      (stats\<lparr>total_dates := total_dates stats + 1\<rparr>) [])
            (\<lambda>(stats', date_prices).
               dates_loop currency rest stats'
                 (if date_prices \<noteq> [] then assign date date_prices summary_by_date
                  else summary_by_date))
      | _ \<Rightarrow> dates_loop currency rest stats summary_by_date)"

definition normalize_cheapest_summary_results ::
  "json \<Rightarrow> string \<Rightarrow> py_exn + (cheapest_result \<times> cheapest_stats)" where
  "normalize_cheapest_summary_results raw currency =
     (case raw of
        JDict data \<Rightarrow>
          (let price_data = get_default data ''data'' (JDict []);
               errors = get data ''errors''
           in
           if \<not> truthy price_data
           then Inr (\<lparr>chr_summary = [], chr_currency = currency, chr_errors = errors,
                       chr_stats = None\<rparr>, initial_stats)
           else
             bind_exn (len_of price_data) (\<lambda>n.
             case price_data of
               JDict dates \<Rightarrow>
                 bind_exn (dates_loop currency dates initial_stats []) (\<lambda>(stats, summary_by_date).
                 bind_exn (format_2f (min_price_overall stats)) (\<lambda>_.
                 bind_exn (format_2f (max_price_overall stats)) (\<lambda>_.
                 Inr (\<lparr>chr_summary = summary_by_date, chr_currency = currency,
                        chr_errors = errors, chr_stats = Some stats\<rparr>, stats))))
             | _ \<Rightarrow> Inl AttributeError))
      | _ \<Rightarrow> Inl AttributeError)"

subsection \<open>The kept entries, in the specification's words\<close>

text \<open>The entries of one date that are kept: those that are dictionaries and whose
  \<^verbatim>\<open>priceCents\<close> and \<^verbatim>\<open>numberOfResults\<close> are both different from 0 (a missing field
  counts as 0).\<close>

definition kept_modes :: "(string \<times> json) list \<Rightarrow> (string \<times> obj) list" where
  "kept_modes modes_data =
     concat (map (\<lambda>(mode, info).
                    case info of
                      JDict price_info \<Rightarrow> if no_data price_info then [] else [(mode, price_info)]
                    | _ \<Rightarrow> [])
                 modes_data)"

text \<open>The kept (date, mode) pairs of the whole payload, in order.\<close>

definition kept_entries :: "(string \<times> json) list \<Rightarrow> (string \<times> string \<times> obj) list" where
  "kept_entries dates =
     concat (map (\<lambda>(date, modes).
                    case modes of
                      JDict modes_data \<Rightarrow> map (\<lambda>(mode, price_info). (date, mode, price_info)) (kept_modes modes_data)
                    | _ \<Rightarrow> [])
                 dates)"

text \<open>The \<^verbatim>\<open>numberOfResults\<close> of an entry as a number.\<close>

definition results_of :: "obj \<Rightarrow> int" where
  "results_of price_info =
     (case num_of (get_default price_info ''numberOfResults'' (JInt 0)) of
        None \<Rightarrow> 0 | Some k \<Rightarrow> k)"

text \<open>The dates whose value is a dictionary.\<close>

definition mapping_dates :: "(string \<times> json) list \<Rightarrow> string list" where
  "mapping_dates dates =
     map fst (filter (\<lambda>(date, modes). case modes of JDict _ \<Rightarrow> True | _ \<Rightarrow> False) dates)"

text \<open>The (date, mode) pairs of a summary.\<close>

definition summary_pairs :: "(string \<times> (string \<times> 'a) list) list \<Rightarrow> (string \<times> string) list" where
  "summary_pairs summary = concat (map (\<lambda>(date, ms). map (\<lambda>(mode, e). (date, mode)) ms) summary)"

text \<open>A cheapest-summary payload of two dates: the first has one entry without a price,
  the second has two entries that are kept; and what the function makes of it.\<close>

definition sample_cheapest_payload :: obj where
  "sample_cheapest_payload =
     [(''data'',
       JDict [(''2024-06-01'', JDict [(''bus'', JDict [(''priceCents'', JInt 0),
                                                      (''numberOfResults'', JInt 5)])]),
              (''2024-06-02'', JDict [(''bus'', JDict [(''priceCents'', JInt 1000),
                                                      (''numberOfResults'', JInt 2)]),
                                      (''train'', JDict [(''priceCents'', JInt 500),
                                                        (''numberOfResults'', JInt 4)])])])]"

definition sample_cheapest_stats :: cheapest_stats where
  "sample_cheapest_stats =
     \<lparr>total_dates = 2, total_modes = 2, total_results = 6,
      by_mode = [(''bus'', \<lparr>ms_count = 1, ms_total_results = 2,
                           ms_min_price = Some (Finite 10), ms_max_price = Some (Finite 10)\<rparr>),
                 (''train'', \<lparr>ms_count = 1, ms_total_results = 4,
                             ms_min_price = Some (Finite 5), ms_max_price = Some (Finite 5)\<rparr>)],
      min_price_overall = Some (Finite 5), max_price_overall = Some (Finite 10),
      cheapest_date = Some ''2024-06-02'', cheapest_mode = Some ''train''\<rparr>"

definition sample_cheapest_result :: cheapest_result where
  "sample_cheapest_result =
     \<lparr>chr_summary =
        [(''2024-06-02'',
          [(''bus'', \<lparr>pe_min_price = Finite 10, pe_price_cents = JInt 1000, pe_currency = ''EUR'',
                     pe_number_of_results = JInt 2, pe_last_updated_at = JNull\<rparr>),
           (''train'', \<lparr>pe_min_price = Finite 5, pe_price_cents = JInt 500, pe_currency = ''EUR'',
                       pe_number_of_results = JInt 4, pe_last_updated_at = JNull\<rparr>)])],
      chr_currency = ''EUR'', chr_errors = JNull, chr_stats = Some sample_cheapest_stats\<rparr>"

section \<open>The upstream client\<close>

text \<open>
  \<^verbatim>\<open>client.get(endpoint, params)\<close> returns the decoded response or raises. What the
  upstream answers may depend on everything asked before, so it is a function of the
  requests made so far and of the request; every call is appended to the log of
  requests, which the service functions pass along. A call that is not made leaves the
  log as it was.
\<close>

type_synonym request = "string \<times> obj"

type_synonym upstream = "request list \<Rightarrow> request \<Rightarrow> py_exn + json"

definition POSITION_ENDPOINT :: string where
  "POSITION_ENDPOINT = ''/nemo/position/suggest''"

definition SEARCH_DAY_RESULTS_ENDPOINT :: string where
  "SEARCH_DAY_RESULTS_ENDPOINT = ''/v2/discovery/results''"

section \<open>\<^verbatim>\<open>services/position_service.py\<close>\<close>

record autocomplete_response =
  best_guess :: "position option"
  alternatives :: "position list"

record resolved_position_info =
  user_term :: string
  best_match :: "position option"
  ranked_candidates :: "position list"

record resolve_positions_suggestion =
  sug_from_id :: "int option"
  sug_to_id :: "int option"

record resolve_positions_response =
  origin :: resolved_position_info
  destination :: resolved_position_info
  suggestion :: resolve_positions_suggestion

text \<open>Lines 63 to 84: where the raw positions are taken from. In the dictionary branch
  the log line takes \<^verbatim>\<open>len\<close> of whatever was found.\<close>

definition positions_data_of :: "json \<Rightarrow> py_exn + json" where
  "positions_data_of raw =
     (case raw of
        JList xs \<Rightarrow> Inr raw
      | JDict d \<Rightarrow>
          (let positions_data =
                 py_or (get d ''positions'') (py_or (get d ''results'') (py_or (get d ''data'')
                   (py_or (get d ''items'') (py_or (get d ''locations'') (JList [])))))
           in bind_exn (len_of positions_data) (\<lambda>n. Inr positions_data))
      | _ \<Rightarrow> Inr (JList []))"

text \<open>\<open>normalize_positions\<close> on whatever \<open>positions_data_of\<close> found: a string is walked
  character by character, a non-empty dictionary fails at \<^verbatim>\<open>raw_positions[0]\<close>, and a
  number has no \<^verbatim>\<open>len\<close>.\<close>

definition normalize_positions_of :: "json \<Rightarrow> py_exn + position list" where
  "normalize_positions_of positions_data =
     (case positions_data of
        JList xs \<Rightarrow> normalize_positions xs
      | JStr s \<Rightarrow> normalize_positions (map (\<lambda>c. JStr [c]) s)
      | JDict d \<Rightarrow> if d = [] then Inr [] else Inl KeyError
      | _ \<Rightarrow> Inl TypeError)"

text \<open>\<^verbatim>\<open>next((p for p in candidates if p.type == "location"), candidates[0] if candidates
  else None)\<close>.\<close>

definition pick_best :: "position list \<Rightarrow> position option" where
  "pick_best candidates =
     (case find (\<lambda>p. p_type p = ''location'') candidates of
        Some p \<Rightarrow> Some p
      | None \<Rightarrow> (case candidates of [] \<Rightarrow> None | c # _ \<Rightarrow> Some c))"

definition autocomplete_response_of :: "position list \<Rightarrow> autocomplete_response" where
  "autocomplete_response_of candidates =
     (let bg = pick_best candidates in
      \<lparr>best_guess = bg,
       alternatives = filter (\<lambda>p. case bg of None \<Rightarrow> True | Some b \<Rightarrow> p_id p \<noteq> p_id b) candidates\<rparr>)"

definition positions_autocomplete ::
  "upstream \<Rightarrow> autocomplete_params \<Rightarrow> request list
   \<Rightarrow> (py_exn + autocomplete_response) \<times> request list" where
  "positions_autocomplete up params calls =
     (case validate_autocomplete_params params of
        Inl e \<Rightarrow> (Inl e, calls)
      | Inr _ \<Rightarrow>
          (let req = (POSITION_ENDPOINT,
                      [(''term'', JStr (ac_term params)),
                       (''locale'', JStr (ac_locale params)),
                       (''limit'', JInt (ac_limit params))])
           in (bind_exn (up calls req) (\<lambda>raw.
               bind_exn (positions_data_of raw) (\<lambda>positions_data.
               bind_exn (normalize_positions_of positions_data) (\<lambda>candidates.
               Inr (autocomplete_response_of candidates)))),
               calls @ [req])))"

definition candidates_of :: "autocomplete_response \<Rightarrow> position list" where
  "candidates_of r = (case best_guess r of None \<Rightarrow> [] | Some b \<Rightarrow> [b]) @ alternatives r"

definition resolve_positions ::
  "upstream \<Rightarrow> resolve_positions_params \<Rightarrow> request list
   \<Rightarrow> (py_exn + resolve_positions_response) \<times> request list" where
  "resolve_positions up params calls =
     (case validate_resolve_params params of
        Inl e \<Rightarrow> (Inl e, calls)
      | Inr _ \<Rightarrow>
          (case positions_autocomplete up
                  \<lparr>ac_term = rp_from_term params, ac_locale = rp_locale params,
                   ac_limit = rp_limit_each params\<rparr> calls of
             (Inl e, calls1) \<Rightarrow> (Inl e, calls1)
           | (Inr origin_autocomplete, calls1) \<Rightarrow>
               (let origin_candidates = candidates_of origin_autocomplete;
                    origin_best = pick_best origin_candidates
                in case positions_autocomplete up
                          \<lparr>ac_term = rp_to_term params, ac_locale = rp_locale params,
                           ac_limit = rp_limit_each params\<rparr> calls1 of
                     (Inl e, calls2) \<Rightarrow> (Inl e, calls2)
                   | (Inr dest_autocomplete, calls2) \<Rightarrow>
                       (let dest_candidates = candidates_of dest_autocomplete;
                            dest_best = pick_best dest_candidates
                        in (Inr \<lparr>origin = \<lparr>user_term = rp_from_term params,
                                            best_match = origin_best,
                                            ranked_candidates = origin_candidates\<rparr>,
                                  destination = \<lparr>user_term = rp_to_term params,
                                                 best_match = dest_best,
                                                 ranked_candidates = dest_candidates\<rparr>,
                                  suggestion = \<lparr>sug_from_id = map_option p_id origin_best,
                                                sug_to_id = map_option p_id dest_best\<rparr>\<rparr>,
                            calls2)))))"

section \<open>\<^verbatim>\<open>services/search_service.py\<close>\<close>

record base_search_params =
  sp_from_id :: "int option"
  sp_to_id :: "int option"
  sp_from_term :: "string option"
  sp_to_term :: "string option"
  sp_adults :: string
  sp_children :: string
  sp_infants :: string
  sp_modes :: "string list"
  sp_locale :: string
  sp_currency :: string

datatype journey_type = ONE_WAY | ROUND_TRIP

record search_day_results_params = base_search_params +
  sp_date_out :: string
  sp_date_return :: "string option"
  sp_outbound_id :: "string option"
  sp_journey_type :: "journey_type option"
  sp_allow_combined_schedules :: "string option"

record search_day_results_response =
  sr_resolved_from_id :: int
  sr_resolved_to_id :: int
  sr_results :: "itinerary list"
  sr_note :: string

text \<open>Truth of an \<^verbatim>\<open>Optional[int]\<close> and of an \<^verbatim>\<open>Optional[str]\<close>: \<^verbatim>\<open>None\<close>, \<open>0\<close> and the
  empty string are false.\<close>

definition id_given :: "int option \<Rightarrow> bool" where
  "id_given i = (case i of None \<Rightarrow> False | Some n \<Rightarrow> n \<noteq> 0)"

definition term_given :: "string option \<Rightarrow> bool" where
  "term_given t = (case t of None \<Rightarrow> False | Some s \<Rightarrow> s \<noteq> [])"

definition quoted :: "string option \<Rightarrow> string" where
  "quoted t = [CHR 0x27] @ (case t of None \<Rightarrow> ''None'' | Some s \<Rightarrow> s) @ [CHR 0x27]"

text \<open>The message of lines 268 and 284; the arrow between the two terms is U+2192 in
  UTF-8.\<close>

definition could_not_resolve :: "string option \<Rightarrow> string option \<Rightarrow> py_exn" where
  "could_not_resolve ft tt =
     LocationResolutionError
       (''Could not resolve locations for '' @ quoted ft @ '' '' @ [CHR 0xE2, CHR 0x86, CHR 0x92]
        @ '' '' @ quoted tt)"

definition must_provide :: py_exn where
  "must_provide =
     LocationResolutionError ''Must provide either (from_id, to_id) or (from_term, to_term)''"

definition ensure_position_ids ::
  "upstream \<Rightarrow> 'a base_search_params_scheme \<Rightarrow> request list
   \<Rightarrow> (py_exn + int \<times> int) \<times> request list" where
  "ensure_position_ids up params calls =
     (if id_given (sp_from_id params) \<and> id_given (sp_to_id params)
      then (case (sp_from_id params, sp_to_id params) of
              (Some f, Some t) \<Rightarrow> (Inr (f, t), calls)
            | _ \<Rightarrow> (Inl must_provide, calls))
      else if term_given (sp_from_term params) \<and> term_given (sp_to_term params)
      then (case (sp_from_term params, sp_to_term params) of
              (Some ft, Some tt) \<Rightarrow>
                (case resolve_positions up
                        \<lparr>rp_from_term = ft, rp_to_term = tt, rp_locale = sp_locale params,
                         rp_limit_each = 20\<rparr> calls of
                   (Inl e, calls') \<Rightarrow>
                     (Inl (could_not_resolve (sp_from_term params) (sp_to_term params)), calls')
                 | (Inr resolved, calls') \<Rightarrow>
                     (case (sug_from_id (suggestion resolved), sug_to_id (suggestion resolved)) of
                        (Some f, Some t) \<Rightarrow>
                          if f \<noteq> 0 \<and> t \<noteq> 0 then (Inr (f, t), calls')
                          else (Inl (could_not_resolve (sp_from_term params) (sp_to_term params)), calls')
                      | _ \<Rightarrow>
                          (Inl (could_not_resolve (sp_from_term params) (sp_to_term params)), calls')))
            | _ \<Rightarrow> (Inl must_provide, calls))
      else (Inl must_provide, calls))"

definition prepare_common_api_params :: "'a base_search_params_scheme \<Rightarrow> int \<Rightarrow> int \<Rightarrow> obj" where
  "prepare_common_api_params params from_id to_id =
     [(''fromId'', JInt from_id),
      (''toId'', JInt to_id),
      (''adults'', JStr (sp_adults params)),
      (''children'', JStr (sp_children params)),
      (''infants'', JStr (sp_infants params)),
      (''travelModes'', JStr (join '','' (sp_modes params))),
      (''locale'', JStr (sp_locale params)),
      (''currency'', JStr (sp_currency params))]"

definition advisory_note :: string where
  "advisory_note =
     ''Prices are estimates and subject to change. Times are local to departure/arrival cities.''"

text \<open>Lines 39 to 46: the request sent to the day-results endpoint.\<close>

definition day_results_request :: "search_day_results_params \<Rightarrow> int \<Rightarrow> int \<Rightarrow> request" where
  "day_results_request params from_id to_id =
     (let api_params =
            assign ''outboundDate'' (JStr (sp_date_out params))
              (prepare_common_api_params params from_id to_id)
      in (SEARCH_DAY_RESULTS_ENDPOINT,
          if term_given (sp_date_return params)
          then (case sp_date_return params of
                  Some r \<Rightarrow> assign ''inboundDate'' (JStr r) api_params
                | None \<Rightarrow> api_params)
          else api_params))"

text \<open>Line 58 logs \<^verbatim>\<open>results[0]\<close>, which is an \<^verbatim>\<open>IndexError\<close> on an empty list.\<close>

definition search_day_results ::
  "upstream \<Rightarrow> search_day_results_params \<Rightarrow> request list
   \<Rightarrow> (py_exn + search_day_results_response) \<times> request list" where
  "search_day_results up params calls =
     (case ensure_position_ids up params calls of
        (Inl e, calls1) \<Rightarrow> (Inl e, calls1)
      | (Inr (from_id, to_id), calls1) \<Rightarrow>
          (let req = day_results_request params from_id to_id
           in (bind_exn (up calls1 req) (\<lambda>raw_data.
               bind_exn (shape_day_results raw_data) (\<lambda>shaped.
               case shaped of
                 [] \<Rightarrow> Inl IndexError
               | first # _ \<Rightarrow>
                   Inr \<lparr>sr_resolved_from_id = from_id, sr_resolved_to_id = to_id,
                        sr_results = shaped, sr_note = advisory_note\<rparr>)),
               calls1 @ [req])))"

section \<open>Sample upstreams\<close>

text \<open>An upstream that knows two places, each as one candidate of type
  \<^verbatim>\<open>location\<close>, and answers a day search from 1 to 2 with one schedule that names a
  segment it does not list, and any other day search with no schedule at all.\<close>

definition stub_upstream :: upstream where
  "stub_upstream calls req =
     (if fst req = POSITION_ENDPOINT then
        (if get (snd req) ''term'' = JStr ''Paris''
         then Inr (JList [JDict [(''positionId'', JInt 1), (''name'', JStr ''Paris''),
                                 (''type'', JStr ''location'')]])
         else if get (snd req) ''term'' = JStr ''Berlin''
         then Inr (JDict [(''positions'',
                           JList [JDict [(''positionId'', JStr ''2''), (''displayName'', JStr ''Berlin''),
                                         (''type'', JStr ''location''), (''countryCode'', JStr ''DE'')]])])
         else Inr (JList []))
      else if get (snd req) ''fromId'' = JInt 1 \<and> get (snd req) ''toId'' = JInt 2 then
        Inr (JDict [(''segments'', JList []),
                    (''outboundSchedules'',
                     JList [JDict [(''id'', JStr ''s1''), (''segmentIDs'', JList [JStr ''x'']),
                                   (''departureAt'', JStr ''2024-06-01T10:00''),
                                   (''arrivalAt'', JStr ''2024-06-01T12:00''),
                                   (''priceCents'', JInt 1000)]])])
      else Inr (JDict [(''outboundSchedules'', JList [])]))"


definition sample_params :: search_day_results_params where
  "sample_params =
     \<lparr>sp_from_id = None, sp_to_id = None, sp_from_term = None, sp_to_term = None,
      sp_adults = ''1'', sp_children = ''0'', sp_infants = ''0'',
      sp_modes = [''bus'', ''train'', ''flight''], sp_locale = ''en'', sp_currency = ''EUR'',
      sp_date_out = ''2024-06-01'', sp_date_return = None, sp_outbound_id = None,
      sp_journey_type = None, sp_allow_combined_schedules = None\<rparr>"

section \<open>Basic facts\<close>

lemma bind_exn_simps [simp]:
  "bind_exn (Inl e) f = Inl e"
  "bind_exn (Inr x) f = f x"
  by (simp_all add: bind_exn_def)

lemma bind_exn_eq_Inr:
  "bind_exn m f = Inr y \<longleftrightarrow> (\<exists>x. m = Inr x \<and> f x = Inr y)"
  by (cases m) auto


lemma string_of_int_0 [simp]: "string_of_int 0 = ''0''"
  by code_simp

lemma py_str_JInt_0 [simp]: "py_str (JInt 0) = ''0''"
  by (simp add: py_str_def)

lemma get_Nil [simp]: "get [] k = JNull" "get_default [] k d = d"
  by (simp_all add: get_def get_default_def)

lemma py_or_JNull [simp]: "py_or JNull x = x"
  by (simp add: py_or_def)


section \<open>Properties of normalize_positions\<close>



text \<open>The loop returns exactly when no record raises: a record raises when it is a
  non-empty value without \<^verbatim>\<open>.get\<close> or \<^verbatim>\<open>in\<close>, or when pydantic refuses its fields.\<close>

lemma normalize_positions_loop_returns_iff:
  "(\<exists>res. normalize_positions_loop raw ps k = Inr res) \<longleftrightarrow>
   (\<forall>r \<in> set raw. \<forall>e. normalize_position r \<noteq> Raised e)"
  by (induction raw arbitrary: ps k) (auto split: step.splits)



text \<open>So the function returns exactly when no record raises, and a dictionary whose name
  fields are strings (or empty), whose \<^verbatim>\<open>type\<close> is a string and whose \<^verbatim>\<open>countryCode\<close> is a
  string or absent never raises.\<close>

lemma normalize_positions_returns_iff:
  "(\<exists>ps. normalize_positions raw = Inr ps)
   \<longleftrightarrow> (\<forall>r \<in> set raw. \<forall>e. normalize_position r \<noteq> Raised e)"
proof (cases "raw = []")
  case True
  then show ?thesis by (simp add: normalize_positions_def normalize_positions_log_def)
next
  case False
  have "(\<exists>ps. normalize_positions raw = Inr ps)
        \<longleftrightarrow> (\<exists>res. normalize_positions_loop raw [] 0 = Inr res)"
    using False
    by (cases "normalize_positions_loop raw [] 0")
       (auto simp: normalize_positions_def normalize_positions_log_def)
  then show ?thesis by (simp only: normalize_positions_loop_returns_iff)
qed

lemma normalize_position_well_typed:
  assumes names: "\<not> truthy (get d ''displayName'') \<or> (\<exists>s. get d ''displayName'' = JStr s)"
                 "\<not> truthy (get d ''defaultName'') \<or> (\<exists>s. get d ''defaultName'' = JStr s)"
                 "\<not> truthy (get d ''name'') \<or> (\<exists>s. get d ''name'' = JStr s)"
    and type: "get_default d ''type'' (JStr ''unknown'') = JStr t"
    and country: "get d ''countryCode'' = JNull \<or> (\<exists>c. get d ''countryCode'' = JStr c)"
  shows "normalize_position (JDict d) \<noteq> Raised e"
proof -
  let ?name = "py_or (get d ''displayName'') (py_or (get d ''defaultName'') (get d ''name''))"
  from names have name: "\<not> truthy ?name \<or> (\<exists>s. ?name = JStr s)"
    unfolding py_or_def by presburger
  have pos: "Position i (JStr s) (JStr t) (get d ''countryCode'') \<noteq> Inl x" for i s x
    using country by (auto simp: Position_def)
  show ?thesis
  proof (cases "truthy ?name")
    case False
    then show ?thesis
      by (simp add: normalize_position_def Let_def split: sum.splits bool.splits)
  next
    case True
    with name obtain s where s: "?name = JStr s" by blast
    show ?thesis
      using pos [of _ s] s type
      by (simp add: normalize_position_def Let_def split: sum.splits bool.splits)
  qed
qed






section \<open>Properties of the validators\<close>









section \<open>Properties of the search service\<close>

text \<open>
  Claim C7, as amended. \<open>ensure_position_ids\<close> tests its inputs for truth, so an id of
  \<open>0\<close> and an empty term count as not supplied. If both ids are supplied and not zero
  they are returned and nothing is asked upstream, whatever the terms are. Otherwise,
  if both terms are supplied and not empty, the terms are resolved: the resolved ids
  are returned when both are present and not zero, and in every other case (an id is
  missing or zero, or the resolution raised anything) the function fails with a
  \<open>LocationResolutionError\<close>. Otherwise it fails with the \<open>LocationResolutionError\<close> that
  names the missing input, again without asking upstream.
\<close>

theorem ensure_position_ids_cases:
  "(\<forall>f t. sp_from_id params = Some f \<and> sp_to_id params = Some t \<and> f \<noteq> 0 \<and> t \<noteq> 0 \<longrightarrow>
       ensure_position_ids up params calls = (Inr (f, t), calls))
   \<and> (\<forall>ft tt r calls'.
         \<not> (id_given (sp_from_id params) \<and> id_given (sp_to_id params))
         \<and> sp_from_term params = Some ft \<and> sp_to_term params = Some tt \<and> ft \<noteq> [] \<and> tt \<noteq> []
         \<and> resolve_positions up
              \<lparr>rp_from_term = ft, rp_to_term = tt, rp_locale = sp_locale params, rp_limit_each = 20\<rparr>
              calls = (r, calls')
         \<longrightarrow>
         ensure_position_ids up params calls =
           (case r of
              Inl e \<Rightarrow> Inl (could_not_resolve (Some ft) (Some tt))
            | Inr resolved \<Rightarrow>
                (case (sug_from_id (suggestion resolved), sug_to_id (suggestion resolved)) of
                   (Some f, Some t) \<Rightarrow>
                     if f \<noteq> 0 \<and> t \<noteq> 0 then Inr (f, t)
                     else Inl (could_not_resolve (Some ft) (Some tt))
                 | _ \<Rightarrow> Inl (could_not_resolve (Some ft) (Some tt))),
            calls'))
   \<and> (\<not> (id_given (sp_from_id params) \<and> id_given (sp_to_id params))
       \<and> \<not> (term_given (sp_from_term params) \<and> term_given (sp_to_term params)) \<longrightarrow>
         ensure_position_ids up params calls = (Inl must_provide, calls))"
  by (auto simp: ensure_position_ids_def id_given_def term_given_def
           split: option.splits sum.splits prod.splits)

lemma resolve_paris_berlin:
  "resolve_positions stub_upstream
     \<lparr>rp_from_term = ''Paris'', rp_to_term = ''Berlin'', rp_locale = ''en'', rp_limit_each = 20\<rparr> []
   = (Inr \<lparr>origin =
            \<lparr>user_term = ''Paris'',
             best_match = Some \<lparr>p_id = 1, p_name = ''Paris'', p_type = ''location'',
                                p_country_code = None\<rparr>,
             ranked_candidates = [\<lparr>p_id = 1, p_name = ''Paris'', p_type = ''location'',
                                   p_country_code = None\<rparr>]\<rparr>,
           destination =
            \<lparr>user_term = ''Berlin'',
             best_match = Some \<lparr>p_id = 2, p_name = ''Berlin'', p_type = ''location'',
                                p_country_code = Some ''DE''\<rparr>,
             ranked_candidates = [\<lparr>p_id = 2, p_name = ''Berlin'', p_type = ''location'',
                                   p_country_code = Some ''DE''\<rparr>]\<rparr>,
           suggestion = \<lparr>sug_from_id = Some 1, sug_to_id = Some 2\<rparr>\<rparr>,
      [(''/nemo/position/suggest'',
        [(''term'', JStr ''Paris''), (''locale'', JStr ''en''), (''limit'', JInt 20)]),
       (''/nemo/position/suggest'',
        [(''term'', JStr ''Berlin''), (''locale'', JStr ''en''), (''limit'', JInt 20)])])"
  by code_simp

lemma resolve_paris_rome:
  "resolve_positions stub_upstream
     \<lparr>rp_from_term = ''Paris'', rp_to_term = ''Rome'', rp_locale = ''en'', rp_limit_each = 20\<rparr> []
   = (Inr \<lparr>origin =
            \<lparr>user_term = ''Paris'',
             best_match = Some \<lparr>p_id = 1, p_name = ''Paris'', p_type = ''location'',
                                p_country_code = None\<rparr>,
             ranked_candidates = [\<lparr>p_id = 1, p_name = ''Paris'', p_type = ''location'',
                                   p_country_code = None\<rparr>]\<rparr>,
           destination = \<lparr>user_term = ''Rome'', best_match = None, ranked_candidates = []\<rparr>,
           suggestion = \<lparr>sug_from_id = Some 1, sug_to_id = None\<rparr>\<rparr>,
      [(''/nemo/position/suggest'',
        [(''term'', JStr ''Paris''), (''locale'', JStr ''en''), (''limit'', JInt 20)]),
       (''/nemo/position/suggest'',
        [(''term'', JStr ''Rome''), (''locale'', JStr ''en''), (''limit'', JInt 20)])])"
  by code_simp

text \<open>With the ids 1 and 2 and both terms given, nothing is asked; with the terms alone,
  two autocomplete calls resolve them; an unknown destination fails; nothing given fails.\<close>

theorem ensure_position_ids_cases_witness:
  "ensure_position_ids stub_upstream
     (sample_params\<lparr>sp_from_id := Some 1, sp_to_id := Some 2,
                    sp_from_term := Some ''Paris'', sp_to_term := Some ''Berlin''\<rparr>) []
     = (Inr (1, 2), [])
   \<and> ensure_position_ids stub_upstream
       (sample_params\<lparr>sp_from_term := Some ''Paris'', sp_to_term := Some ''Berlin''\<rparr>) []
     = (Inr (1, 2),
        [(''/nemo/position/suggest'',
          [(''term'', JStr ''Paris''), (''locale'', JStr ''en''), (''limit'', JInt 20)]),
         (''/nemo/position/suggest'',
          [(''term'', JStr ''Berlin''), (''locale'', JStr ''en''), (''limit'', JInt 20)])])
   \<and> fst (ensure_position_ids stub_upstream
       (sample_params\<lparr>sp_from_term := Some ''Paris'', sp_to_term := Some ''Rome''\<rparr>) [])
     = Inl (could_not_resolve (Some ''Paris'') (Some ''Rome''))
   \<and> ensure_position_ids stub_upstream sample_params [] = (Inl must_provide, [])"
  using ensure_position_ids_cases
          [of "sample_params\<lparr>sp_from_id := Some 1, sp_to_id := Some 2,
                    sp_from_term := Some ''Paris'', sp_to_term := Some ''Berlin''\<rparr>" stub_upstream "[]"]
        ensure_position_ids_cases
          [of "sample_params\<lparr>sp_from_term := Some ''Paris'', sp_to_term := Some ''Berlin''\<rparr>"
              stub_upstream "[]"]
        ensure_position_ids_cases
          [of "sample_params\<lparr>sp_from_term := Some ''Paris'', sp_to_term := Some ''Rome''\<rparr>"
              stub_upstream "[]"]
        ensure_position_ids_cases [of sample_params stub_upstream "[]"]
        resolve_paris_berlin resolve_paris_rome
  by (simp add: sample_params_def id_given_def term_given_def)

text \<open>The claim as stated fails for the id \<open>0\<close>: both ids are supplied, and the function
  raises instead of returning them.\<close>

theorem ensure_position_ids_zero_id_counterexample:
  "ensure_position_ids stub_upstream (sample_params\<lparr>sp_from_id := Some 0, sp_to_id := Some 5\<rparr>) []
   = (Inl (LocationResolutionError ''Must provide either (from_id, to_id) or (from_term, to_term)''), [])"
  by code_simp


text \<open>
  Claim C9. \<open>search_day_results\<close> never returns a response with an empty list of
  results: when the positions are resolved, the upstream answers, and
  \<open>shape_day_results\<close> produces no itinerary, the log line that reads \<^verbatim>\<open>results[0]\<close>
  raises an \<^verbatim>\<open>IndexError\<close> after the upstream call was made; so every response that is
  returned holds at least one itinerary.
\<close>

theorem search_day_results_never_empty:
  "(\<forall>resp calls'. search_day_results up params calls = (Inr resp, calls') \<longrightarrow> sr_results resp \<noteq> [])
   \<and> (\<forall>f t calls1 raw.
         ensure_position_ids up params calls = (Inr (f, t), calls1)
         \<and> up calls1 (day_results_request params f t) = Inr raw
         \<and> shape_day_results raw = Inr []
         \<longrightarrow> search_day_results up params calls
             = (Inl IndexError, calls1 @ [day_results_request params f t]))"
proof (intro conjI allI impI)
  fix resp calls'
  assume a: "search_day_results up params calls = (Inr resp, calls')"
  show "sr_results resp \<noteq> []"
  proof (cases "ensure_position_ids up params calls")
    case (Pair r calls1)
    show ?thesis
    proof (cases r)
      case (Inl e)
      with Pair a show ?thesis by (simp add: search_day_results_def)
    next
      case (Inr ids)
      obtain f t where ids: "ids = (f, t)" by (cases ids)
      from a Pair Inr ids
      have "bind_exn (up calls1 (day_results_request params f t)) (\<lambda>raw_data.
               bind_exn (shape_day_results raw_data) (\<lambda>shaped.
               case shaped of
                 [] \<Rightarrow> Inl IndexError
               | first # _ \<Rightarrow>
                   Inr \<lparr>sr_resolved_from_id = f, sr_resolved_to_id = t,
                        sr_results = shaped, sr_note = advisory_note\<rparr>)) = Inr resp"
        by (simp add: search_day_results_def Let_def)
      then obtain raw shaped where "shape_day_results raw = Inr shaped"
        and r: "(case shaped of [] \<Rightarrow> Inl IndexError
               | first # _ \<Rightarrow>
                   Inr \<lparr>sr_resolved_from_id = f, sr_resolved_to_id = t,
                        sr_results = shaped, sr_note = advisory_note\<rparr>) = Inr resp"
        by (auto simp: bind_exn_eq_Inr)
      from r show ?thesis by (cases shaped) auto
    qed
  qed
next
  fix f t calls1 raw
  assume "ensure_position_ids up params calls = (Inr (f, t), calls1)
         \<and> up calls1 (day_results_request params f t) = Inr raw
         \<and> shape_day_results raw = Inr []"
  then show "search_day_results up params calls
             = (Inl IndexError, calls1 @ [day_results_request params f t])"
    by (simp add: search_day_results_def Let_def)
qed


lemma stub_day_search_3_2:
  "ensure_position_ids stub_upstream (sample_params\<lparr>sp_from_id := Some 3, sp_to_id := Some 2\<rparr>) []
     = (Inr (3, 2), [])"
  "day_results_request (sample_params\<lparr>sp_from_id := Some 3, sp_to_id := Some 2\<rparr>) 3 2
     = (''/v2/discovery/results'',
        [(''fromId'', JInt 3), (''toId'', JInt 2), (''adults'', JStr ''1''),
         (''children'', JStr ''0''), (''infants'', JStr ''0''),
         (''travelModes'', JStr ''bus,train,flight''),
         (''locale'', JStr ''en''), (''currency'', JStr ''EUR''),
         (''outboundDate'', JStr ''2024-06-01'')])"
  "stub_upstream []
     (''/v2/discovery/results'',
      [(''fromId'', JInt 3), (''toId'', JInt 2), (''adults'', JStr ''1''),
       (''children'', JStr ''0''), (''infants'', JStr ''0''),
       (''travelModes'', JStr ''bus,train,flight''),
       (''locale'', JStr ''en''), (''currency'', JStr ''EUR''),
       (''outboundDate'', JStr ''2024-06-01'')])
     = Inr (JDict [(''outboundSchedules'', JList [])])"
  "shape_day_results (JDict [(''outboundSchedules'', JList [])]) = Inr []"
  by code_simp+

lemma stub_day_search_1_2:
  "search_day_results stub_upstream (sample_params\<lparr>sp_from_id := Some 1, sp_to_id := Some 2\<rparr>) []
   = (Inr \<lparr>sr_resolved_from_id = 1, sr_resolved_to_id = 2,
           sr_results =
             [\<lparr>it_from_term = ''Unknown'', it_to_term = ''Unknown'',
               it_mode = ''unknown'', it_stable_id = ''s1'',
               it_price_from = Finite 10, it_currency = ''EUR'',
               it_duration = ''0'',
               it_departure = \<lparr>ti_datetime = ''2024-06-01T10:00'', ti_tz = Some ''UTC''\<rparr>,
               it_arrival = \<lparr>ti_datetime = ''2024-06-01T12:00'', ti_tz = Some ''UTC''\<rparr>,
               it_carrier = None\<rparr>],
           sr_note = ''Prices are estimates and subject to change. Times are local to departure/arrival cities.''\<rparr>,
      [(''/v2/discovery/results'',
        [(''fromId'', JInt 1), (''toId'', JInt 2), (''adults'', JStr ''1''),
         (''children'', JStr ''0''), (''infants'', JStr ''0''),
         (''travelModes'', JStr ''bus,train,flight''),
         (''locale'', JStr ''en''), (''currency'', JStr ''EUR''),
         (''outboundDate'', JStr ''2024-06-01'')])])"
  by code_simp

text \<open>A day search that the upstream answers with an empty schedule list ends in the
  \<^verbatim>\<open>IndexError\<close>, after its one upstream call; a day search with one schedule returns it.\<close>

theorem search_day_results_never_empty_witness:
  "search_day_results stub_upstream (sample_params\<lparr>sp_from_id := Some 3, sp_to_id := Some 2\<rparr>) []
     = (Inl IndexError,
        [(''/v2/discovery/results'',
          [(''fromId'', JInt 3), (''toId'', JInt 2), (''adults'', JStr ''1''),
           (''children'', JStr ''0''), (''infants'', JStr ''0''),
           (''travelModes'', JStr ''bus,train,flight''),
           (''locale'', JStr ''en''), (''currency'', JStr ''EUR''),
           (''outboundDate'', JStr ''2024-06-01'')])])
   \<and> (\<exists>resp calls'.
         search_day_results stub_upstream
           (sample_params\<lparr>sp_from_id := Some 1, sp_to_id := Some 2\<rparr>) [] = (Inr resp, calls')
         \<and> length (sr_results resp) = 1 \<and> sr_results resp \<noteq> [])"
proof -
  have a: "search_day_results stub_upstream
             (sample_params\<lparr>sp_from_id := Some 3, sp_to_id := Some 2\<rparr>) []
     = (Inl IndexError,
        [(''/v2/discovery/results'',
          [(''fromId'', JInt 3), (''toId'', JInt 2), (''adults'', JStr ''1''),
           (''children'', JStr ''0''), (''infants'', JStr ''0''),
           (''travelModes'', JStr ''bus,train,flight''),
           (''locale'', JStr ''en''), (''currency'', JStr ''EUR''),
           (''outboundDate'', JStr ''2024-06-01'')])])"
    using search_day_results_never_empty
            [of stub_upstream "sample_params\<lparr>sp_from_id := Some 3, sp_to_id := Some 2\<rparr>" "[]"]
          stub_day_search_3_2
    by simp
  have b: "\<exists>resp calls'.
         search_day_results stub_upstream
           (sample_params\<lparr>sp_from_id := Some 1, sp_to_id := Some 2\<rparr>) [] = (Inr resp, calls')
         \<and> length (sr_results resp) = 1 \<and> sr_results resp \<noteq> []"
    using search_day_results_never_empty
            [of stub_upstream "sample_params\<lparr>sp_from_id := Some 1, sp_to_id := Some 2\<rparr>" "[]"]
          stub_day_search_1_2
    by simp
  from a b show ?thesis by simp
qed

section \<open>Properties of shape_day_results\<close>

lemma shape_loop_results:
  "fst (shape_loop rd cm pm sm scheds acc n) = acc @ concat (map (shaped_of rd cm pm sm) scheds)"
  by (induction scheds arbitrary: acc n)
     (auto simp: shaped_of_def split: json.splits sum.splits)

text \<open>The error count that is logged is the number of schedules, whatever they are.\<close>

lemma shape_loop_errors:
  "snd (shape_loop rd cm pm sm scheds acc n) = n + length scheds"
  by (induction scheds arbitrary: acc n) (auto split: json.splits sum.splits)







section \<open>Properties of normalize_cheapest_summary_results\<close>

lemma keep_entry_totals:
  assumes "keep_entry cur date mode pinfo stats = Inr (stats', e)"
  shows "total_modes stats' = total_modes stats + 1"
    and "total_results stats' = total_results stats + results_of pinfo"
    and "total_dates stats' = total_dates stats"
  using assms
  by (auto simp: keep_entry_def Let_def bind_exn_eq_Inr add_int_def results_of_def
           split: option.splits)

lemma assign_fresh: "k \<notin> fst ` set kvs \<Longrightarrow> assign k v kvs = kvs @ [(k, v)]"
  by (induction kvs) auto

lemma modes_loop_inv:
  assumes "modes_loop cur date md stats dp = Inr (stats', dp')"
  shows "total_modes stats' = total_modes stats + int (length (kept_modes md))
       \<and> total_results stats' = total_results stats + sum_list (map (results_of \<circ> snd) (kept_modes md))
       \<and> total_dates stats' = total_dates stats
       \<and> (distinct (map fst md) \<and> fst ` set dp \<inter> fst ` set md = {}
            \<longrightarrow> map fst dp' = map fst dp @ map fst (kept_modes md))"
  using assms
proof (induction md arbitrary: stats dp)
  case Nil
  then show ?case by (simp add: kept_modes_def)
next
  case (Cons a md)
  obtain mode info where a: "a = (mode, info)" by (cases a)
  show ?case
  proof (cases "\<exists>pinfo. info = JDict pinfo \<and> \<not> no_data pinfo")
    case False
    with Cons.prems a have "modes_loop cur date md stats dp = Inr (stats', dp')"
      by (auto split: json.splits if_splits)
    from Cons.IH [OF this] False a show ?thesis
      by (auto simp: kept_modes_def split: json.splits)
  next
    case True
    then obtain pinfo where pinfo: "info = JDict pinfo" "\<not> no_data pinfo" by blast
    with Cons.prems a obtain stats1 e where
      k: "keep_entry cur date mode pinfo stats = Inr (stats1, e)"
      and l: "modes_loop cur date md stats1 (assign mode e dp) = Inr (stats', dp')"
      by (auto simp: bind_exn_eq_Inr)
    note t = keep_entry_totals [OF k]
    have km: "kept_modes (a # md) = (mode, pinfo) # kept_modes md"
      using a pinfo by (simp add: kept_modes_def)
    from Cons.IH [OF l] t km show ?thesis
      by (auto simp: assign_fresh a)
  qed
qed


lemma summary_pairs_append:
  "summary_pairs (xs @ ys) = summary_pairs xs @ summary_pairs ys"
  by (simp add: summary_pairs_def)

lemma summary_pairs_single:
  "summary_pairs [(date, ms)] = map (\<lambda>m. (date, m)) (map fst ms)"
  by (simp add: summary_pairs_def case_prod_unfold comp_def)

lemma dates_loop_inv:
  assumes "dates_loop cur dates stats summ = Inr (stats', summ')"
  shows "total_dates stats' = total_dates stats + int (length (mapping_dates dates))
       \<and> total_modes stats' = total_modes stats + int (length (kept_entries dates))
       \<and> total_results stats'
           = total_results stats + sum_list (map (\<lambda>(d, m, p). results_of p) (kept_entries dates))
       \<and> (distinct (map fst dates) \<and> (\<forall>m \<in> snd ` set dates. wf_json m)
              \<and> fst ` set summ \<inter> fst ` set dates = {}
            \<longrightarrow> summary_pairs summ'
                 = summary_pairs summ @ map (\<lambda>(d, m, p). (d, m)) (kept_entries dates))"
  using assms
proof (induction dates arbitrary: stats summ)
  case Nil
  then show ?case by (simp add: kept_entries_def mapping_dates_def)
next
  case (Cons a dates)
  obtain date modes where a: "a = (date, modes)" by (cases a)
  show ?case
  proof (cases "\<exists>md. modes = JDict md")
    case False
    with Cons.prems a have "dates_loop cur dates stats summ = Inr (stats', summ')"
      by (auto split: json.splits)
    from Cons.IH [OF this] False a show ?thesis
      by (auto simp: kept_entries_def mapping_dates_def split: json.splits)
  next
    case True
    then obtain md where md: "modes = JDict md" by blast
    let ?next = "\<lambda>dp. if dp \<noteq> [] then assign date dp summ else summ"
    from Cons.prems a md obtain s1 dp where
      m: "modes_loop cur date md (stats\<lparr>total_dates := total_dates stats + 1\<rparr>) [] = Inr (s1, dp)"
      and l: "dates_loop cur dates s1 (?next dp) = Inr (stats', summ')"
      by (auto simp: bind_exn_eq_Inr)
    note mi = modes_loop_inv [OF m]
    note ih = Cons.IH [OF l]
    have ke: "kept_entries (a # dates)
              = map (\<lambda>(mode, p). (date, mode, p)) (kept_modes md) @ kept_entries dates"
      using a md by (simp add: kept_entries_def)
    have md': "mapping_dates (a # dates) = date # mapping_dates dates"
      using a md by (simp add: mapping_dates_def)
    have sums: "sum_list (map (\<lambda>(d, m, p). results_of p)
                   (map (\<lambda>(mode, p). (date, mode, p)) (kept_modes md)))
                = sum_list (map (results_of \<circ> snd) (kept_modes md))"
      by (simp add: comp_def case_prod_unfold)
    have counts: "total_dates stats' = total_dates stats + int (length (mapping_dates (a # dates)))"
      "total_modes stats' = total_modes stats + int (length (kept_entries (a # dates)))"
      "total_results stats' = total_results stats
          + sum_list (map (\<lambda>(d, m, p). results_of p) (kept_entries (a # dates)))"
      using mi ih ke md' sums by simp_all
    have pairs: "summary_pairs summ'
                 = summary_pairs summ @ map (\<lambda>(d, m, p). (d, m)) (kept_entries (a # dates))"
      if d: "distinct (map fst (a # dates))" and w: "\<forall>m \<in> snd ` set (a # dates). wf_json m"
        and f: "fst ` set summ \<inter> fst ` set (a # dates) = {}"
    proof -
      from w a md have "distinct (map fst md)" by simp
      with mi have keys: "map fst dp = map fst (kept_modes md)" by simp
      from f a have fresh: "date \<notin> fst ` set summ" by auto
      have nxt: "summary_pairs (?next dp)
                 = summary_pairs summ @ map (\<lambda>m. (date, m)) (map fst (kept_modes md))"
      proof (cases "dp = []")
        case True
        with keys show ?thesis by simp
      next
        case False
        with fresh keys show ?thesis
          by (simp add: assign_fresh summary_pairs_append summary_pairs_single)
      qed
      have sub: "fst ` set (?next dp) \<subseteq> insert date (fst ` set summ)"
        using fresh by (auto simp: assign_fresh)
      from d a have nd: "date \<notin> fst ` set dates" by simp
      from f have fd: "fst ` set summ \<inter> fst ` set dates = {}" by auto
      from sub nd fd have "fst ` set (?next dp) \<inter> fst ` set dates = {}"
        by blast
      with ih d w have "summary_pairs summ'
            = summary_pairs (?next dp) @ map (\<lambda>(d, m, p). (d, m)) (kept_entries dates)"
        by simp
      with nxt ke show ?thesis
        by (simp add: comp_def case_prod_unfold)
    qed
    from counts pairs show ?thesis by blast
  qed
qed

text \<open>
  Claim C6, as amended. On a payload whose \<^verbatim>\<open>data\<close> is a dictionary (or absent), whenever
  \<open>normalize_cheapest_summary_results\<close> returns: an entry is kept exactly when it is a
  dictionary whose \<^verbatim>\<open>priceCents\<close> and \<^verbatim>\<open>numberOfResults\<close> both differ from 0 (a missing
  field counts as 0); \<open>total_modes\<close> is the number of kept (date, mode) pairs,
  \<open>total_results\<close> is the sum of their \<^verbatim>\<open>numberOfResults\<close>, and, the keys of every
  dictionary being distinct, the summary holds exactly the kept pairs in their order.
  \<open>total_dates\<close> is not the number of dates with a kept entry: it counts every date
  whose value is a dictionary, kept entries or not.
\<close>

theorem cheapest_summary_stats:
  assumes res: "normalize_cheapest_summary_results (JDict data) currency = Inr (result, stats)"
    and dates: "get_default data ''data'' (JDict []) = JDict dates"
  shows "total_dates stats = int (length (mapping_dates dates))
       \<and> total_modes stats = int (length (kept_entries dates))
       \<and> total_results stats = sum_list (map (\<lambda>(d, m, p). results_of p) (kept_entries dates))
       \<and> (wf_json (JDict dates)
            \<longrightarrow> summary_pairs (chr_summary result) = map (\<lambda>(d, m, p). (d, m)) (kept_entries dates))"
proof (cases "dates = []")
  case True
  with res dates have "result = \<lparr>chr_summary = [], chr_currency = currency,
                         chr_errors = get data ''errors'', chr_stats = None\<rparr>"
    and "stats = initial_stats"
    by (auto simp: normalize_cheapest_summary_results_def)
  with True show ?thesis
    by (simp add: initial_stats_def mapping_dates_def kept_entries_def summary_pairs_def)
next
  case False
  with res dates obtain summ where
    l: "dates_loop currency dates initial_stats [] = Inr (stats, summ)"
    and s: "chr_summary result = summ"
    by (auto simp: normalize_cheapest_summary_results_def len_of_def bind_exn_eq_Inr)
  from dates_loop_inv [OF l] s show ?thesis
    by (simp add: initial_stats_def summary_pairs_def)
qed

lemma sample_cheapest_facts:
  "normalize_cheapest_summary_results (JDict sample_cheapest_payload) ''EUR''
     = Inr (sample_cheapest_result, sample_cheapest_stats)"
  "get_default sample_cheapest_payload ''data'' (JDict [])
     = JDict [(''2024-06-01'', JDict [(''bus'', JDict [(''priceCents'', JInt 0),
                                                      (''numberOfResults'', JInt 5)])]),
              (''2024-06-02'', JDict [(''bus'', JDict [(''priceCents'', JInt 1000),
                                                      (''numberOfResults'', JInt 2)]),
                                      (''train'', JDict [(''priceCents'', JInt 500),
                                                        (''numberOfResults'', JInt 4)])])]"
  by code_simp+

theorem cheapest_summary_stats_witness:
  "normalize_cheapest_summary_results (JDict sample_cheapest_payload) ''EUR''
     = Inr (sample_cheapest_result, sample_cheapest_stats)
   \<and> total_dates sample_cheapest_stats = 2
   \<and> total_modes sample_cheapest_stats = 2
   \<and> total_results sample_cheapest_stats = 6
   \<and> summary_pairs (chr_summary sample_cheapest_result)
     = [(''2024-06-02'', ''bus''), (''2024-06-02'', ''train'')]"
proof -
  have k: "kept_entries [(''2024-06-01'', JDict [(''bus'', JDict [(''priceCents'', JInt 0),
                                                      (''numberOfResults'', JInt 5)])]),
              (''2024-06-02'', JDict [(''bus'', JDict [(''priceCents'', JInt 1000),
                                                      (''numberOfResults'', JInt 2)]),
                                      (''train'', JDict [(''priceCents'', JInt 500),
                                                        (''numberOfResults'', JInt 4)])])]
     = [(''2024-06-02'', ''bus'', [(''priceCents'', JInt 1000), (''numberOfResults'', JInt 2)]),
        (''2024-06-02'', ''train'', [(''priceCents'', JInt 500), (''numberOfResults'', JInt 4)])]"
    by code_simp
  have r: "results_of [(''priceCents'', JInt 1000), (''numberOfResults'', JInt 2)] = 2"
          "results_of [(''priceCents'', JInt 500), (''numberOfResults'', JInt 4)] = 4"
    by code_simp+
  have m: "mapping_dates [(''2024-06-01'', JDict [(''bus'', JDict [(''priceCents'', JInt 0),
                                                      (''numberOfResults'', JInt 5)])]),
              (''2024-06-02'', JDict [(''bus'', JDict [(''priceCents'', JInt 1000),
                                                      (''numberOfResults'', JInt 2)]),
                                      (''train'', JDict [(''priceCents'', JInt 500),
                                                        (''numberOfResults'', JInt 4)])])]
     = [''2024-06-01'', ''2024-06-02'']"
    by code_simp
  from cheapest_summary_stats [OF sample_cheapest_facts] k r m sample_cheapest_facts(1)
  show ?thesis by simp
qed

text \<open>The claim as stated fails: of the two dates only the second has a kept entry and
  appears in the summary, and \<open>total_dates\<close> is 2.\<close>

theorem cheapest_summary_total_dates_counterexample:
  "normalize_cheapest_summary_results (JDict sample_cheapest_payload) ''EUR''
     = Inr (sample_cheapest_result, sample_cheapest_stats)
   \<and> total_dates sample_cheapest_stats = 2
   \<and> map fst (chr_summary sample_cheapest_result) = [''2024-06-02'']"
  by code_simp


section \<open>When every entry is skipped\<close>

text \<open>
  Claim C1, at its failing inputs. A calendar whose only day lacks \<^verbatim>\<open>priceCents\<close>, and a
  cheapest summary whose only entry has the price 0: each record is skipped with
  \<^verbatim>\<open>continue\<close>, nothing is kept, and the closing log line formats the minimum price,
  which is \<^verbatim>\<open>None\<close>, with \<^verbatim>\<open>:.2f\<close>. Both functions raise a \<^verbatim>\<open>TypeError\<close> instead of
  returning the empty result; a calendar whose \<^verbatim>\<open>prices\<close> list is empty returns.
\<close>

theorem normalizers_raise_when_all_skipped:
  "normalize_calendar_day_results
     (JDict [(''prices'', JList [JDict [(''date'', JStr ''2024-06-01'')]])]) = Inl TypeError
   \<and> normalize_cheapest_summary_results
       (JDict [(''data'',
                JDict [(''2024-06-01'',
                        JDict [(''bus'', JDict [(''priceCents'', JInt 0),
                                               (''numberOfResults'', JInt 3)])])])])
       ''EUR'' = Inl TypeError
   \<and> normalize_calendar_day_results (JDict [(''prices'', JList [])])
     = Inr (\<lparr>cr_request_id = JNull, cr_from_pos_id = JNull, cr_to_pos_id = JNull,
              cr_currency = JStr ''EUR'', cr_calendar = [], cr_stats = None\<rparr>, 0)"
  by code_simp

section \<open>Further properties from the specification's list\<close>

text \<open>The calendar: whenever \<open>normalize_calendar_day_results\<close> returns, the count it
  returns is the length of the calendar, the calendar holds the dates of the days that
  have both a \<^verbatim>\<open>date\<close> and a \<^verbatim>\<open>priceCents\<close>, in order, and none of them is null.\<close>

lemma calendar_loop_inv:
  assumes "calendar_loop cur days acc mn mx = Inr (acc', mn', mx')"
  shows "map cd_date acc' = map cd_date acc @ map (\<lambda>d. get d ''date'') (kept_days days)
       \<and> (\<forall>day \<in> set days. \<exists>d. day = JDict d)"
  using assms
proof (induction days arbitrary: acc mn mx)
  case Nil
  then show ?case by (simp add: kept_days_def)
next
  case (Cons day days)
  from Cons.prems obtain d where d: "day = JDict d"
    by (cases day) auto
  show ?case
  proof (cases "get d ''date'' = JNull \<or> get d ''priceCents'' = JNull")
    case True
    with Cons.prems d have "calendar_loop cur days acc mn mx = Inr (acc', mn', mx')"
      by (auto simp: Let_def)
    from Cons.IH [OF this] True d show ?thesis by (simp add: kept_days_def)
  next
    case False
    with Cons.prems d obtain m1 m2 p where
      p: "py_float (get d ''priceCents'') = Inr p"
      and l: "calendar_loop cur days
                (acc @ [\<lparr>cd_date = get d ''date'', cd_price_cents = p, cd_currency = cur\<rparr>])
                m1 m2 = Inr (acc', mn', mx')"
      by (auto simp: Let_def bind_exn_eq_Inr)
    from Cons.IH [OF l] False d p show ?thesis by (simp add: kept_days_def)
  qed
qed

theorem calendar_days_kept:
  assumes "normalize_calendar_day_results (JDict data) = Inr (result, n)"
    and "get_default data ''prices'' (JList []) = JList days"
  shows "n = length (cr_calendar result)
       \<and> map cd_date (cr_calendar result) = map (\<lambda>d. get d ''date'') (kept_days days)
       \<and> (\<forall>c \<in> set (cr_calendar result). cd_date c \<noteq> JNull)"
proof (cases "days = []")
  case True
  with assms show ?thesis
    by (auto simp: normalize_calendar_day_results_def Let_def kept_days_def)
next
  case False
  with assms obtain mn mx where
    l: "calendar_loop (get_default data ''currency'' (JStr ''EUR'')) days [] None None
        = Inr (cr_calendar result, mn, mx)"
    and n: "n = length (cr_calendar result)"
    by (auto simp: normalize_calendar_day_results_def Let_def bind_exn_eq_Inr len_of_def)
  from calendar_loop_inv [OF l]
  have dates: "map cd_date (cr_calendar result) = map (\<lambda>d. get d ''date'') (kept_days days)"
    by simp
  have "\<forall>d \<in> set (kept_days days). get d ''date'' \<noteq> JNull"
    by (auto simp: kept_days_def split: json.splits if_splits)
  with dates have "\<forall>c \<in> set (cr_calendar result). cd_date c \<noteq> JNull"
    by (metis (no_types, lifting) imageE image_eqI list.set_map)
  with n dates show ?thesis by simp
qed

theorem calendar_days_kept_witness:
  "normalize_calendar_day_results
     (JDict [(''prices'',
              JList [JDict [(''date'', JStr ''2024-06-01''), (''priceCents'', JInt 1000)],
                     JDict [(''date'', JStr ''2024-06-02''), (''priceCents'', JInt 2000)],
                     JDict [(''date'', JStr ''2024-06-03'')]])])
     = Inr (\<lparr>cr_request_id = JNull, cr_from_pos_id = JNull, cr_to_pos_id = JNull,
              cr_currency = JStr ''EUR'',
              cr_calendar =
                [\<lparr>cd_date = JStr ''2024-06-01'', cd_price_cents = Finite 1000,
                  cd_currency = JStr ''EUR''\<rparr>,
                 \<lparr>cd_date = JStr ''2024-06-02'', cd_price_cents = Finite 2000,
                  cd_currency = JStr ''EUR''\<rparr>],
              cr_stats =
                Some \<lparr>cs_min_price_cents = Some (JInt 1000), cs_max_price_cents = Some (JInt 2000),
                      cs_min_price = Some (Finite 10), cs_max_price = Some (Finite 20),
                      cs_total_days = 2\<rparr>\<rparr>,
            2)
   \<and> map (\<lambda>d. get d ''date'')
         (kept_days [JDict [(''date'', JStr ''2024-06-01''), (''priceCents'', JInt 1000)],
                     JDict [(''date'', JStr ''2024-06-02''), (''priceCents'', JInt 2000)],
                     JDict [(''date'', JStr ''2024-06-03'')]])
     = [JStr ''2024-06-01'', JStr ''2024-06-02'']"
proof -
  have r: "normalize_calendar_day_results
     (JDict [(''prices'',
              JList [JDict [(''date'', JStr ''2024-06-01''), (''priceCents'', JInt 1000)],
                     JDict [(''date'', JStr ''2024-06-02''), (''priceCents'', JInt 2000)],
                     JDict [(''date'', JStr ''2024-06-03'')]])])
     = Inr (\<lparr>cr_request_id = JNull, cr_from_pos_id = JNull, cr_to_pos_id = JNull,
              cr_currency = JStr ''EUR'',
              cr_calendar =
                [\<lparr>cd_date = JStr ''2024-06-01'', cd_price_cents = Finite 1000,
                  cd_currency = JStr ''EUR''\<rparr>,
                 \<lparr>cd_date = JStr ''2024-06-02'', cd_price_cents = Finite 2000,
                  cd_currency = JStr ''EUR''\<rparr>],
              cr_stats =
                Some \<lparr>cs_min_price_cents = Some (JInt 1000), cs_max_price_cents = Some (JInt 2000),
                      cs_min_price = Some (Finite 10), cs_max_price = Some (Finite 20),
                      cs_total_days = 2\<rparr>\<rparr>,
            2)"
    by code_simp
  have g: "get_default
             [(''prices'',
               JList [JDict [(''date'', JStr ''2024-06-01''), (''priceCents'', JInt 1000)],
                      JDict [(''date'', JStr ''2024-06-02''), (''priceCents'', JInt 2000)],
                      JDict [(''date'', JStr ''2024-06-03'')]])]
             ''prices'' (JList [])
           = JList [JDict [(''date'', JStr ''2024-06-01''), (''priceCents'', JInt 1000)],
                    JDict [(''date'', JStr ''2024-06-02''), (''priceCents'', JInt 2000)],
                    JDict [(''date'', JStr ''2024-06-03'')]]"
    by code_simp
  from calendar_days_kept [OF r g] r show ?thesis by simp
qed

text \<open>The itineraries: when the three tables and the three schedule lists can be read,
  \<open>shape_day_results\<close> returns what the combined, the outbound and the inbound
  schedules contribute, in that order; the error count it logs is the number of
  schedules.\<close>

theorem shape_day_results_in_order:
  assumes "table_of rd ''carriers'' = Inr carriers"
    and "table_of rd ''positions'' = Inr positions"
    and "table_of rd ''segments'' = Inr segments"
    and "schedules_of rd ''combinedSchedules'' = Inr combined"
    and "schedules_of rd ''outboundSchedules'' = Inr outbound"
    and "schedules_of rd ''inboundSchedules'' = Inr inbound"
  shows "shape_day_results_log (JDict rd)
         = Inr (concat (map (shaped_of rd (dict_of (map carrier_entry carriers))
                                          (dict_of (map position_entry positions))
                                          (dict_of (map segment_entry segments)))
                            (combined @ outbound @ inbound)),
                length (combined @ outbound @ inbound))"
proof -
  let ?r = "shape_loop rd (dict_of (map carrier_entry carriers))
              (dict_of (map position_entry positions)) (dict_of (map segment_entry segments))
              (combined @ outbound @ inbound) [] 0"
  have "shape_day_results_log (JDict rd) = Inr ?r"
    using assms by (simp add: shape_day_results_log_def)
  moreover have "?r = (fst ?r, snd ?r)" by simp
  ultimately show ?thesis
    unfolding shape_loop_results shape_loop_errors by simp
qed

lemma sample_day_payload_tables:
  "table_of sample_day_payload ''carriers'' = Inr []"
  "table_of sample_day_payload ''positions'' = Inr [[(''id'', JInt 1), (''name'', JStr ''Paris'')]]"
  "table_of sample_day_payload ''segments'' = Inr [[(''id'', JStr ''a'')]]"
  "schedules_of sample_day_payload ''combinedSchedules'' = Inr []"
  "schedules_of sample_day_payload ''outboundSchedules'' = Inr [JDict sample_schedule]"
  "schedules_of sample_day_payload ''inboundSchedules'' = Inr []"
  by code_simp+

theorem shape_day_results_in_order_witness:
  "shape_day_results_log (JDict sample_day_payload)
   = Inr (shaped_of sample_day_payload (dict_of [])
            (dict_of (map position_entry [[(''id'', JInt 1), (''name'', JStr ''Paris'')]]))
            (dict_of (map segment_entry [[(''id'', JStr ''a'')]]))
            (JDict sample_schedule),
          1)"
  using shape_day_results_in_order [OF sample_day_payload_tables]
  by simp

text \<open>The resolution: a response of \<open>resolve_positions\<close> comes after exactly two
  upstream calls, for the origin and then for the destination; each side's best match
  is picked from its candidates, and the suggested ids are those of the best matches.\<close>

lemma positions_autocomplete_calls:
  "snd (positions_autocomplete up params calls) = calls
   \<or> snd (positions_autocomplete up params calls)
       = calls @ [(POSITION_ENDPOINT,
                   [(''term'', JStr (ac_term params)), (''locale'', JStr (ac_locale params)),
                    (''limit'', JInt (ac_limit params))])]"
  by (simp add: positions_autocomplete_def Let_def split: sum.splits)

lemma positions_autocomplete_Inr_calls:
  assumes "positions_autocomplete up params calls = (Inr r, calls')"
  shows "calls' = calls @ [(POSITION_ENDPOINT,
                   [(''term'', JStr (ac_term params)), (''locale'', JStr (ac_locale params)),
                    (''limit'', JInt (ac_limit params))])]"
  using assms by (auto simp: positions_autocomplete_def Let_def split: sum.splits)

theorem resolve_positions_suggestion:
  assumes "resolve_positions up params calls = (Inr resp, calls')"
  shows "sug_from_id (suggestion resp) = map_option p_id (best_match (origin resp))
       \<and> sug_to_id (suggestion resp) = map_option p_id (best_match (destination resp))
       \<and> best_match (origin resp) = pick_best (ranked_candidates (origin resp))
       \<and> best_match (destination resp) = pick_best (ranked_candidates (destination resp))
       \<and> calls' = calls
           @ [(POSITION_ENDPOINT,
               [(''term'', JStr (rp_from_term params)), (''locale'', JStr (rp_locale params)),
                (''limit'', JInt (rp_limit_each params))]),
              (POSITION_ENDPOINT,
               [(''term'', JStr (rp_to_term params)), (''locale'', JStr (rp_locale params)),
                (''limit'', JInt (rp_limit_each params))])]"
proof -
  let ?po = "\<lparr>ac_term = rp_from_term params, ac_locale = rp_locale params,
              ac_limit = rp_limit_each params\<rparr>"
  let ?pd = "\<lparr>ac_term = rp_to_term params, ac_locale = rp_locale params,
              ac_limit = rp_limit_each params\<rparr>"
  from assms obtain o_ac calls1 d_ac where
    o: "positions_autocomplete up ?po calls = (Inr o_ac, calls1)"
    and d: "positions_autocomplete up ?pd calls1 = (Inr d_ac, calls')"
    and r: "resp = \<lparr>origin = \<lparr>user_term = rp_from_term params,
                                best_match = pick_best (candidates_of o_ac),
                                ranked_candidates = candidates_of o_ac\<rparr>,
                     destination = \<lparr>user_term = rp_to_term params,
                                     best_match = pick_best (candidates_of d_ac),
                                     ranked_candidates = candidates_of d_ac\<rparr>,
                     suggestion = \<lparr>sug_from_id = map_option p_id (pick_best (candidates_of o_ac)),
                                   sug_to_id = map_option p_id (pick_best (candidates_of d_ac))\<rparr>\<rparr>"
    by (auto simp: resolve_positions_def Let_def split: sum.splits prod.splits)
  from positions_autocomplete_Inr_calls [OF o] positions_autocomplete_Inr_calls [OF d] r
  show ?thesis by simp
qed

theorem resolve_positions_suggestion_witness:
  "resolve_positions stub_upstream
     \<lparr>rp_from_term = ''Paris'', rp_to_term = ''Berlin'', rp_locale = ''en'', rp_limit_each = 5\<rparr> []
   = (Inr \<lparr>origin =
            \<lparr>user_term = ''Paris'',
             best_match = Some \<lparr>p_id = 1, p_name = ''Paris'', p_type = ''location'',
                                p_country_code = None\<rparr>,
             ranked_candidates = [\<lparr>p_id = 1, p_name = ''Paris'', p_type = ''location'',
                                   p_country_code = None\<rparr>]\<rparr>,
           destination =
            \<lparr>user_term = ''Berlin'',
             best_match = Some \<lparr>p_id = 2, p_name = ''Berlin'', p_type = ''location'',
                                p_country_code = Some ''DE''\<rparr>,
             ranked_candidates = [\<lparr>p_id = 2, p_name = ''Berlin'', p_type = ''location'',
                                   p_country_code = Some ''DE''\<rparr>]\<rparr>,
           suggestion = \<lparr>sug_from_id = Some 1, sug_to_id = Some 2\<rparr>\<rparr>,
      [(''/nemo/position/suggest'',
        [(''term'', JStr ''Paris''), (''locale'', JStr ''en''), (''limit'', JInt 5)]),
       (''/nemo/position/suggest'',
        [(''term'', JStr ''Berlin''), (''locale'', JStr ''en''), (''limit'', JInt 5)])])
   \<and> pick_best [\<lparr>p_id = 1, p_name = ''Paris'', p_type = ''location'', p_country_code = None\<rparr>]
     = Some \<lparr>p_id = 1, p_name = ''Paris'', p_type = ''location'', p_country_code = None\<rparr>"
proof -
  have r: "resolve_positions stub_upstream
     \<lparr>rp_from_term = ''Paris'', rp_to_term = ''Berlin'', rp_locale = ''en'', rp_limit_each = 5\<rparr> []
   = (Inr \<lparr>origin =
            \<lparr>user_term = ''Paris'',
             best_match = Some \<lparr>p_id = 1, p_name = ''Paris'', p_type = ''location'',
                                p_country_code = None\<rparr>,
             ranked_candidates = [\<lparr>p_id = 1, p_name = ''Paris'', p_type = ''location'',
                                   p_country_code = None\<rparr>]\<rparr>,
           destination =
            \<lparr>user_term = ''Berlin'',
             best_match = Some \<lparr>p_id = 2, p_name = ''Berlin'', p_type = ''location'',
                                p_country_code = Some ''DE''\<rparr>,
             ranked_candidates = [\<lparr>p_id = 2, p_name = ''Berlin'', p_type = ''location'',
                                   p_country_code = Some ''DE''\<rparr>]\<rparr>,
           suggestion = \<lparr>sug_from_id = Some 1, sug_to_id = Some 2\<rparr>\<rparr>,
      [(''/nemo/position/suggest'',
        [(''term'', JStr ''Paris''), (''locale'', JStr ''en''), (''limit'', JInt 5)]),
       (''/nemo/position/suggest'',
        [(''term'', JStr ''Berlin''), (''locale'', JStr ''en''), (''limit'', JInt 5)])])"
    by code_simp
  from resolve_positions_suggestion [OF r] r show ?thesis by simp
qed


end
